theory Spec2Isabelle
  imports Main
begin

section \<open>Strings\<close>

text \<open>
  A Python \<open>str\<close> is modelled as a \<open>string\<close>, one \<open>char\<close> per code point; the model
  therefore covers the code points below 256. The character classes below are
  Python's, restricted to that range.
\<close>

text \<open>\<open>s.startswith(p)\<close>, with the prefix as first argument.\<close>

fun startswith :: "string \<Rightarrow> string \<Rightarrow> bool" where
  "startswith [] s = True"
| "startswith (p # ps) [] = False"
| "startswith (p # ps) (x # xs) = (p = x \<and> startswith ps xs)"

text \<open>\<open>sub in s\<close>, with the substring as first argument.\<close>

fun contains :: "string \<Rightarrow> string \<Rightarrow> bool" where
  "contains sub [] = (sub = [])"
| "contains sub (x # xs) = (startswith sub (x # xs) \<or> contains sub xs)"

text \<open>\<open>str.format\<close> of a non-negative integer: its decimal digits.\<close>

definition digit_char :: "nat \<Rightarrow> char" where
  "digit_char d = ''0123456789'' ! d"

function str_nat :: "nat \<Rightarrow> string" where
  "str_nat n = (if n < 10 then [digit_char n] else str_nat (n div 10) @ [digit_char (n mod 10)])"
  by pat_completeness auto
termination
  by (relation "measure id") auto

declare str_nat.simps [simp del]

text \<open>\<open>' '.join(xs)\<close>.\<close>

fun join_space :: "string list \<Rightarrow> string" where
  "join_space [] = []"
| "join_space [x] = x"
| "join_space (x # y # ys) = x @ '' '' @ join_space (y # ys)"

section \<open>Regular expressions\<close>

text \<open>
  The patterns of \<open>parsers.py\<close> use character classes, literals, greedy repetition of a
  single class, an optional group, one alternation, capture groups and \<open>$\<close>. The
  matcher follows the backtracking search of Python's \<open>re\<close>: it returns every way to
  match, in the order the search tries them (greedy repetition: longest first; an
  optional part: present first), so that the head of the list is the match
  \<open>re.match\<close> reports. A state is the text still to read and the groups closed so far.
\<close>

datatype cclass =
    Digit          \<comment> \<open>\<open>\d\<close>\<close>
  | Space          \<comment> \<open>\<open>\s\<close>\<close>
  | Dot            \<comment> \<open>\<open>.\<close> (no DOTALL flag)\<close>
  | Chr char       \<comment> \<open>a literal character\<close>
  | OneOf string   \<comment> \<open>\<open>[...]\<close>\<close>

datatype regex =
    Cls cclass           \<comment> \<open>one character of the class\<close>
  | Lit string           \<comment> \<open>a literal text\<close>
  | Star cclass          \<comment> \<open>\<open>c*\<close>\<close>
  | Plus cclass          \<comment> \<open>\<open>c+\<close>\<close>
  | Rep nat cclass       \<comment> \<open>\<open>c{n}\<close>\<close>
  | Opt regex            \<comment> \<open>\<open>(?:r)?\<close>\<close>
  | Alt regex regex      \<comment> \<open>\<open>(?:r|s)\<close>\<close>
  | Grp regex            \<comment> \<open>\<open>(r)\<close>, a capture group\<close>
  | Eos                  \<comment> \<open>\<open>$\<close> (no MULTILINE flag)\<close>
  | Cat "regex list"     \<comment> \<open>concatenation\<close>

definition is_digit :: "char \<Rightarrow> bool" where
  "is_digit c = (c \<in> set ''0123456789'')"

text \<open>
  Unicode white space below code point 256: tab, line feed, vertical tab, form feed,
  carriage return, the separators 0x1C to 0x1F, space, NEL and no-break space.
\<close>

definition is_space :: "char \<Rightarrow> bool" where
  "is_space c = (c \<in> set [CHR 0x09, CHR 0x0A, CHR 0x0B, CHR 0x0C, CHR 0x0D,
                            CHR 0x1C, CHR 0x1D, CHR 0x1E, CHR 0x1F, CHR 0x20,
                            CHR 0x85, CHR 0xA0])"

fun in_class :: "cclass \<Rightarrow> char \<Rightarrow> bool" where
  "in_class Digit c = is_digit c"
| "in_class Space c = is_space c"
| "in_class Dot c = (c \<noteq> CHR 0x0A)"
| "in_class (Chr d) c = (c = d)"
| "in_class (OneOf ds) c = (c \<in> set ds)"

text \<open>The texts left after \<open>c*\<close>, longest repetition first.\<close>

fun star_rests :: "cclass \<Rightarrow> string \<Rightarrow> string list" where
  "star_rests c [] = [[]]"
| "star_rests c (x # xs) = (if in_class c x then star_rests c xs @ [x # xs] else [x # xs])"

text \<open>The text left after exactly \<open>n\<close> characters of the class, if they are there.\<close>

fun rep_rest :: "nat \<Rightarrow> cclass \<Rightarrow> string \<Rightarrow> string list" where
  "rep_rest 0 c s = [s]"
| "rep_rest (Suc n) c [] = []"
| "rep_rest (Suc n) c (x # xs) = (if in_class c x then rep_rest n c xs else [])"

type_synonym mstate = "string \<times> string list"

fun rmatch :: "regex \<Rightarrow> mstate \<Rightarrow> mstate list"
  and rmatch_cat :: "regex list \<Rightarrow> mstate \<Rightarrow> mstate list" where
  "rmatch (Cls c) (s, gs) =
     (case s of [] \<Rightarrow> [] | x # xs \<Rightarrow> if in_class c x then [(xs, gs)] else [])"
| "rmatch (Lit t) (s, gs) = (if startswith t s then [(drop (length t) s, gs)] else [])"
| "rmatch (Star c) (s, gs) = map (\<lambda>r. (r, gs)) (star_rests c s)"
| "rmatch (Plus c) (s, gs) =
     (case s of [] \<Rightarrow> []
      | x # xs \<Rightarrow> if in_class c x then map (\<lambda>r. (r, gs)) (star_rests c xs) else [])"
| "rmatch (Rep n c) (s, gs) = map (\<lambda>r. (r, gs)) (rep_rest n c s)"
| "rmatch (Opt r) st = rmatch r st @ [st]"
| "rmatch (Alt a b) st = rmatch a st @ rmatch b st"
| "rmatch (Grp r) (s, gs) =
     map (\<lambda>(s', gs'). (s', gs' @ [take (length s - length s') s])) (rmatch r (s, gs))"
| "rmatch Eos (s, gs) = (if s = [] \<or> s = [CHR 0x0A] then [(s, gs)] else [])"
| "rmatch (Cat rs) st = rmatch_cat rs st"
| "rmatch_cat [] st = [st]"
| "rmatch_cat (r # rs) st = concat (map (rmatch_cat rs) (rmatch r st))"

text \<open>
  \<open>re.match(pattern, line)\<close>: the pattern is anchored at the start of the line and need
  not reach its end. \<open>None\<close> is no match, \<open>Some gs\<close> a match object with the groups
  \<open>gs\<close> (\<open>group(1)\<close> first).
\<close>

definition re_match :: "regex \<Rightarrow> string \<Rightarrow> string list option" where
  "re_match pat line = (case rmatch pat (line, []) of [] \<Rightarrow> None | (rest, gs) # _ \<Rightarrow> Some gs)"

section \<open>Patterns of the formats\<close>

text \<open>The timestamp \<open>(?:\d+:)?\d{2}:\d{2}.\d{3}\<close> of the two WebVTT classes: the dot is unescaped.\<close>

definition WebVTT_timestamp :: regex where
  "WebVTT_timestamp =
     Cat [Opt (Cat [Plus Digit, Cls (Chr CHR '':'')]), Rep 2 Digit, Cls (Chr CHR '':''),
          Rep 2 Digit, Cls Dot, Rep 3 Digit]"

text \<open>\<open>WebVTTParser.TIMEFRAME_LINE_PATTERN\<close>, the same in \<open>WebVTTParserCDP\<close>:
  \<open>\s*((?:\d+:)?\d{2}:\d{2}.\d{3})\s*-->\s*((?:\d+:)?\d{2}:\d{2}.\d{3})\<close>.\<close>

definition WebVTT_TIMEFRAME_LINE_PATTERN :: regex where
  "WebVTT_TIMEFRAME_LINE_PATTERN =
     Cat [Star Space, Grp WebVTT_timestamp, Star Space, Lit ''-->'', Star Space,
          Grp WebVTT_timestamp]"

text \<open>\<open>COMMENT_PATTERN\<close>: \<open>NOTE(?:\s.+|$)\<close>.\<close>

definition COMMENT_PATTERN :: regex where
  "COMMENT_PATTERN = Cat [Lit ''NOTE'', Alt (Cat [Cls Space, Plus Dot]) Eos]"

text \<open>\<open>STYLE_PATTERN\<close>: \<open>STYLE[ \t]*$\<close>.\<close>

definition STYLE_PATTERN :: regex where
  "STYLE_PATTERN = Cat [Lit ''STYLE'', Star (OneOf [CHR '' '', CHR 0x09]), Eos]"

text \<open>\<open>IDENTIFY_SENTENCE\<close>: \<open>.*[.!?]\<close>.\<close>

definition IDENTIFY_SENTENCE :: regex where
  "IDENTIFY_SENTENCE = Cat [Star Dot, Cls (OneOf ''.!?'')]"

text \<open>\<open>SRTParser.TIMEFRAME_LINE_PATTERN\<close>:
  \<open>\s*(\d+:\d{2}:\d{2},\d{3})\s*-->\s*(\d+:\d{2}:\d{2},\d{3})\<close>.\<close>

definition SRT_timestamp :: regex where
  "SRT_timestamp =
     Cat [Plus Digit, Cls (Chr CHR '':''), Rep 2 Digit, Cls (Chr CHR '':''), Rep 2 Digit,
          Cls (Chr CHR '',''), Rep 3 Digit]"

definition SRT_TIMEFRAME_LINE_PATTERN :: regex where
  "SRT_TIMEFRAME_LINE_PATTERN =
     Cat [Star Space, Grp SRT_timestamp, Star Space, Lit ''-->'', Star Space, Grp SRT_timestamp]"

text \<open>\<open>SBVParser.TIMEFRAME_LINE_PATTERN\<close>: \<open>\s*(\d+:\d{2}:\d{2}.\d{3}),(\d+:\d{2}:\d{2}.\d{3})\<close>.\<close>

definition SBV_timestamp :: regex where
  "SBV_timestamp =
     Cat [Plus Digit, Cls (Chr CHR '':''), Rep 2 Digit, Cls (Chr CHR '':''), Rep 2 Digit,
          Cls Dot, Rep 3 Digit]"

definition SBV_TIMEFRAME_LINE_PATTERN :: regex where
  "SBV_TIMEFRAME_LINE_PATTERN =
     Cat [Star Space, Grp SBV_timestamp, Cls (Chr CHR '',''), Grp SBV_timestamp]"

section \<open>Records of \<open>structures.py\<close> and errors of \<open>errors.py\<close>\<close>

text \<open>
  Modelled from the spec: the classes \<open>Caption\<close>, \<open>Block\<close> and \<open>Style\<close> of
  \<open>structures.py\<close>, which is not among the sources. A caption has an optional
  identifier, the two timestamps as strings, its text lines and the flag the grouping
  parser sets; its text is derived, the lines joined by a single space. \<open>Caption()\<close>
  starts without identifier, lines or flag; the timestamps it starts with are never
  read, since \<open>_parse_cue_block\<close> assigns both before it returns the caption.
\<close>

record caption =
  "identifier" :: "string option"
  start :: string
  end' :: string
  lines :: "string list"
  flagEndSentence :: bool

text \<open>
  Modelled from the spec: the constructor \<open>Caption(start, end)\<close>, a caption with the two
  timestamps and no identifier, line or flag yet.
\<close>

definition Caption :: "string \<Rightarrow> string \<Rightarrow> caption" where
  "Caption s e = \<lparr>identifier = None, start = s, end' = e, lines = [], flagEndSentence = False\<rparr>"

text \<open>
  Modelled from the spec: \<open>Caption()\<close>, the constructor without arguments. The
  timestamps it leaves are placeholders: no function of \<open>parsers.py\<close> reads them.
\<close>

definition Caption0 :: caption where
  "Caption0 = Caption ''00:00:00.000'' ''00:00:00.000''"

text \<open>Modelled from the spec: \<open>caption.add_line(line)\<close> appends a text line.\<close>

definition add_line :: "string \<Rightarrow> caption \<Rightarrow> caption" where
  "add_line l c = c\<lparr>lines := lines c @ [l]\<rparr>"

text \<open>Modelled from the spec: \<open>caption.text\<close>, the lines joined by a single space.\<close>

definition caption_text :: "caption \<Rightarrow> string" where
  "caption_text c = join_space (lines c)"

text \<open>
  Modelled from the spec: the assignment \<open>caption.text = v\<close>, which replaces the
  caption's text. The text being derived from the lines, the assignment leaves the
  caption with the one line \<open>v\<close>.
\<close>

definition set_text :: "string \<Rightarrow> caption \<Rightarrow> caption" where
  "set_text v c = c\<lparr>lines := [v]\<rparr>"

text \<open>Modelled from the spec: \<open>Block(index)\<close> is a block without lines at that line number.\<close>

record block =
  line_number :: nat
  block_lines :: "string list"

definition Block :: "nat \<Rightarrow> block" where
  "Block n = \<lparr>line_number = n, block_lines = []\<rparr>"

text \<open>Modelled from the spec: a \<open>Style\<close> holds the raw lines of a style block.\<close>

record style =
  style_lines :: "string list"

text \<open>
  Modelled from the spec: the two exceptions of \<open>errors.py\<close> (not among the sources),
  each with its message. With them, the two built-in exceptions the code can raise:
  \<open>lines[0]\<close> on an empty list and \<open>None[0]\<close>.
\<close>

datatype error =
    MalformedFileError string
  | MalformedCaptionError string
  | IndexError
  | TypeError

section \<open>\<open>TextBasedParser\<close>\<close>

definition validate_timeframe_line :: "regex \<Rightarrow> string \<Rightarrow> string list option" where
  "validate_timeframe_line pat line = re_match pat line"

text \<open>\<open>tf.group(1), tf.group(2)\<close>; a pattern with fewer than two groups has no such group.\<close>

definition parse_timeframe_line :: "regex \<Rightarrow> string \<Rightarrow> error + (string \<times> string)" where
  "parse_timeframe_line pat line =
     (case validate_timeframe_line pat line of
        None \<Rightarrow> Inl (MalformedCaptionError ''Invalid time format'')
      | Some gs \<Rightarrow> (case gs of s # e # _ \<Rightarrow> Inr (s, e) | _ \<Rightarrow> Inl IndexError))"

text \<open>
  What a subclass of \<open>TextBasedParser\<close> provides: \<open>_is_timeframe_line\<close>, the pattern,
  \<open>_should_skip_line\<close> and the option \<open>ignore_empty_captions\<close> of \<open>PARSER_OPTIONS\<close>.
\<close>

record grammar =
  is_timeframe_line :: "string \<Rightarrow> bool"
  TIMEFRAME_LINE_PATTERN :: regex
  should_skip_line :: "string \<Rightarrow> nat \<Rightarrow> caption option \<Rightarrow> bool"
  ignore_empty_captions :: bool

text \<open>
  The state of the loop of \<open>_parse\<close>: \<open>self.captions\<close> and the open caption \<open>c\<close>.
  One iteration, for the line at the 0-based \<open>index\<close>:
\<close>

type_synonym pstate = "caption list \<times> caption option"

definition parse_line :: "grammar \<Rightarrow> pstate \<Rightarrow> nat \<Rightarrow> string \<Rightarrow> error + pstate" where
  "parse_line g st index line =
     (case st of (caps, c) \<Rightarrow>
        if is_timeframe_line g line then
          (case parse_timeframe_line (TIMEFRAME_LINE_PATTERN g) line of
             Inl (MalformedCaptionError e) \<Rightarrow>
               Inl (MalformedCaptionError (e @ '' in line '' @ str_nat (index + 1)))
           | Inl e \<Rightarrow> Inl e
           | Inr (s, e) \<Rightarrow> Inr (caps, Some (Caption s e)))
        else if should_skip_line g line index c then Inr (caps, c)
        else if line \<noteq> [] then
          (case c of
             None \<Rightarrow> Inl (MalformedCaptionError
                        (''Caption missing timeframe in line '' @ str_nat (index + 1) @ ''.''))
           | Some c' \<Rightarrow> Inr (caps, Some (add_line line c')))
        else
          (case c of
             None \<Rightarrow> Inr (caps, None)
           | Some c' \<Rightarrow>
               if lines c' = [] then
                 (if ignore_empty_captions g then Inr (caps, None)
                  else Inl (MalformedCaptionError
                         (''Caption missing text in line '' @ str_nat (index + 1) @ ''.'')))
               else Inr (caps @ [c'], None)))"

fun parse_lines :: "grammar \<Rightarrow> pstate \<Rightarrow> nat \<Rightarrow> string list \<Rightarrow> error + pstate" where
  "parse_lines g st index [] = Inr st"
| "parse_lines g st index (l # ls) =
     (case parse_line g st index l of
        Inl e \<Rightarrow> Inl e
      | Inr st' \<Rightarrow> parse_lines g st' (Suc index) ls)"

text \<open>After the loop an open caption is appended if it has lines.\<close>

definition finish :: "pstate \<Rightarrow> caption list" where
  "finish st =
     (case st of (caps, c) \<Rightarrow>
        (case c of None \<Rightarrow> caps | Some c' \<Rightarrow> if lines c' \<noteq> [] then caps @ [c'] else caps))"

text \<open>\<open>TextBasedParser._parse\<close>: the captions it leaves in \<open>self.captions\<close>, or the exception.\<close>

definition TextBasedParser_parse :: "grammar \<Rightarrow> string list \<Rightarrow> error + caption list" where
  "TextBasedParser_parse g ls =
     (case parse_lines g ([], None) 0 ls of Inl e \<Rightarrow> Inl e | Inr st \<Rightarrow> Inr (finish st))"

subsection \<open>\<open>SRTParser\<close> and \<open>SBVParser\<close>\<close>

text \<open>
  \<open>str.isdigit\<close>: a non-empty string of digit characters; below code point 256 these
  are the ten decimal digits and the superscripts two, three and one.
\<close>

definition isdigit :: "string \<Rightarrow> bool" where
  "isdigit s = (s \<noteq> [] \<and> list_all (\<lambda>c. is_digit c \<or> c \<in> set [CHR 0xB2, CHR 0xB3, CHR 0xB9]) s)"

definition SRTParser :: grammar where
  "SRTParser =
     \<lparr>is_timeframe_line = contains ''-->'',
      TIMEFRAME_LINE_PATTERN = SRT_TIMEFRAME_LINE_PATTERN,
      should_skip_line = (\<lambda>line index c. c = None \<and> isdigit line),
      ignore_empty_captions = True\<rparr>"

definition SBVParser :: grammar where
  "SBVParser =
     \<lparr>is_timeframe_line = (\<lambda>line. validate_timeframe_line SBV_TIMEFRAME_LINE_PATTERN line \<noteq> None),
      TIMEFRAME_LINE_PATTERN = SBV_TIMEFRAME_LINE_PATTERN,
      should_skip_line = (\<lambda>line index c. False),
      ignore_empty_captions = False\<rparr>"

text \<open>\<open>_validate\<close> of the two classes; \<open>lines[0]\<close> of no lines is an \<open>IndexError\<close>.\<close>

definition SRTParser_validate :: "string list \<Rightarrow> error + unit" where
  "SRTParser_validate ls =
     (if length ls < 2 \<or> ls ! 0 \<noteq> ''1''
         \<or> validate_timeframe_line SRT_TIMEFRAME_LINE_PATTERN (ls ! 1) = None
      then Inl (MalformedFileError ''The file does not have a valid format.'')
      else Inr ())"

definition SBVParser_validate :: "string list \<Rightarrow> error + unit" where
  "SBVParser_validate ls =
     (case ls of
        [] \<Rightarrow> Inl IndexError
      | l # _ \<Rightarrow>
          if validate_timeframe_line SBV_TIMEFRAME_LINE_PATTERN l = None
          then Inl (MalformedFileError ''The file does not have a valid format'')
          else Inr ())"

section \<open>\<open>WebVTTParser\<close> and \<open>WebVTTParserCDP\<close>\<close>

text \<open>
  The two classes have the same \<open>__init__\<close>, \<open>_compute_blocks\<close>, \<open>_validate\<close>,
  \<open>_is_cue_timings_line\<close>, \<open>_is_cue_block\<close>, \<open>_is_comment_block\<close> and
  \<open>_is_style_block\<close>, word for word. An instance holds \<open>captions\<close>, \<open>styles\<close> and,
  once \<open>_compute_blocks\<close> has run, \<open>blocks\<close>.
\<close>

record parser =
  captions :: "caption list"
  styles :: "style list"
  blocks :: "block list"

definition WebVTTParser_init :: parser where
  "WebVTTParser_init = \<lparr>captions = [], styles = [], blocks = []\<rparr>"

text \<open>
  One iteration of the loop of \<open>_compute_blocks\<close>, for the line at the 1-based \<open>index\<close>;
  \<open>blocks[-1]\<close> is the last element of the list, which is not empty where it is read.
\<close>

definition compute_blocks_line :: "block list \<Rightarrow> nat \<Rightarrow> string \<Rightarrow> block list" where
  "compute_blocks_line bs index line =
     (if line \<noteq> [] then
        let bs1 = (if bs = [] then bs @ [Block index] else bs);
            bs2 = (if block_lines (last bs1) = []
                   then butlast bs1 @ [(last bs1)\<lparr>line_number := index\<rparr>] else bs1)
        in butlast bs2 @ [(last bs2)\<lparr>block_lines := block_lines (last bs2) @ [line]\<rparr>]
      else bs @ [Block index])"

fun compute_blocks_loop :: "block list \<Rightarrow> nat \<Rightarrow> string list \<Rightarrow> block list" where
  "compute_blocks_loop bs index [] = bs"
| "compute_blocks_loop bs index (l # ls) =
     compute_blocks_loop (compute_blocks_line bs index l) (Suc index) ls"

text \<open>The value \<open>_compute_blocks\<close> stores in \<open>self.blocks\<close>.\<close>

definition compute_blocks :: "string list \<Rightarrow> block list" where
  "compute_blocks ls = drop 1 (filter (\<lambda>x. block_lines x \<noteq> []) (compute_blocks_loop [] 1 ls))"

definition WebVTTParser_validate :: "string list \<Rightarrow> error + unit" where
  "WebVTTParser_validate ls =
     (case ls of
        [] \<Rightarrow> Inl IndexError
      | l # _ \<Rightarrow>
          if \<not> startswith ''WEBVTT'' l
          then Inl (MalformedFileError ''The file does not have a valid format'')
          else Inr ())"

definition is_cue_timings_line :: "string \<Rightarrow> bool" where
  "is_cue_timings_line line = contains ''-->'' line"

definition is_cue_block :: "block \<Rightarrow> bool" where
  "is_cue_block b = list_ex is_cue_timings_line (take 2 (block_lines b))"

text \<open>
  \<open>_is_comment_block\<close> and \<open>_is_style_block\<close> read \<open>block.lines[0]\<close>; \<open>_parse\<close> raises
  \<open>IndexError\<close> for a block without lines before it gets to them (see \<open>parse_block\<close>).
\<close>

definition is_comment_block :: "block \<Rightarrow> bool" where
  "is_comment_block b = (re_match COMMENT_PATTERN (hd (block_lines b)) \<noteq> None)"

definition is_style_block :: "block \<Rightarrow> bool" where
  "is_style_block b = (re_match STYLE_PATTERN (hd (block_lines b)) \<noteq> None)"

definition group_by_sentence :: "string \<Rightarrow> bool" where
  "group_by_sentence line = (re_match IDENTIFY_SENTENCE line \<noteq> None)"

text \<open>
  \<open>_parse_cue_block\<close>. The loop keeps the caption under construction and \<open>cue_timings\<close>.
  The two classes differ in one place: \<open>WebVTTParserCDP\<close> (\<open>cdp\<close> true) sets
  \<open>flagEndSentence\<close> on a text line that matches \<open>IDENTIFY_SENTENCE\<close>. Here
  \<open>bln\<close> is \<open>block.line_number\<close> and \<open>n\<close> the 0-based position of the line in the block.
\<close>

type_synonym cstate = "caption \<times> (string \<times> string) option"

definition parse_cue_line :: "bool \<Rightarrow> nat \<Rightarrow> cstate \<Rightarrow> nat \<Rightarrow> string \<Rightarrow> error + cstate" where
  "parse_cue_line cdp bln st n line =
     (case st of (cap, cue_timings) \<Rightarrow>
        if is_cue_timings_line line then
          (case cue_timings of
             None \<Rightarrow>
               (case parse_timeframe_line WebVTT_TIMEFRAME_LINE_PATTERN line of
                  Inl (MalformedCaptionError e) \<Rightarrow>
                    Inl (MalformedCaptionError (e @ '' in line '' @ str_nat (bln + n)))
                | Inl e \<Rightarrow> Inl e
                | Inr tf \<Rightarrow> Inr (cap, Some tf))
           | Some _ \<Rightarrow> Inl (MalformedCaptionError (''--> found in line '' @ str_nat (bln + n))))
        else if n = 0 then Inr (cap\<lparr>identifier := Some line\<rparr>, cue_timings)
        else
          Inr (add_line line
                 (if cdp \<and> group_by_sentence line then cap\<lparr>flagEndSentence := True\<rparr> else cap),
               cue_timings))"

fun parse_cue_lines :: "bool \<Rightarrow> nat \<Rightarrow> cstate \<Rightarrow> nat \<Rightarrow> string list \<Rightarrow> error + cstate" where
  "parse_cue_lines cdp bln st n [] = Inr st"
| "parse_cue_lines cdp bln st n (l # ls) =
     (case parse_cue_line cdp bln st n l of
        Inl e \<Rightarrow> Inl e
      | Inr st' \<Rightarrow> parse_cue_lines cdp bln st' (Suc n) ls)"

definition parse_cue_block :: "bool \<Rightarrow> block \<Rightarrow> error + caption" where
  "parse_cue_block cdp b =
     (case parse_cue_lines cdp (line_number b) (Caption0, None) 0 (block_lines b) of
        Inl e \<Rightarrow> Inl e
      | Inr (cap, cue_timings) \<Rightarrow>
          (case cue_timings of
             None \<Rightarrow> Inl TypeError
           | Some (s, e) \<Rightarrow> Inr (cap\<lparr>start := s, end' := e\<rparr>)))"

text \<open>The last branch of the loop of \<open>_parse\<close>, the same in both classes.\<close>

definition malformed_block :: "block \<Rightarrow> error" where
  "malformed_block b =
     (if length (block_lines b) = 1
      then MalformedCaptionError
             (''Standalone cue identifier in line '' @ str_nat (line_number b) @ ''.'')
      else MalformedCaptionError
             (''Missing timing cue in line '' @ str_nat (line_number b + 1) @ ''.''))"

definition style_after_cue :: "block \<Rightarrow> error" where
  "style_after_cue b =
     MalformedFileError
       (''Style block defined after the first cue in line '' @ str_nat (line_number b) @ ''.'')"

text \<open>\<open>style = Style(); style.lines = block.lines[1:]\<close>.\<close>

definition Style_of :: "block \<Rightarrow> style" where
  "Style_of b = \<lparr>style_lines = drop 1 (block_lines b)\<rparr>"

subsection \<open>\<open>WebVTTParser._parse\<close>\<close>

text \<open>One iteration of the loop over \<open>self.blocks\<close>.\<close>

definition parse_block :: "parser \<Rightarrow> block \<Rightarrow> error + parser" where
  "parse_block self b =
     (if is_cue_block b then
        (case parse_cue_block False b of
           Inl e \<Rightarrow> Inl e
         | Inr cap \<Rightarrow> Inr (self\<lparr>captions := captions self @ [cap]\<rparr>))
      else if block_lines b = [] then Inl IndexError
      else if is_comment_block b then Inr self
      else if is_style_block b then
        (if captions self \<noteq> [] then Inl (style_after_cue b)
         else Inr (self\<lparr>styles := styles self @ [Style_of b]\<rparr>))
      else Inl (malformed_block b))"

fun parse_blocks :: "parser \<Rightarrow> block list \<Rightarrow> error + parser" where
  "parse_blocks self [] = Inr self"
| "parse_blocks self (b # bs) =
     (case parse_block self b of Inl e \<Rightarrow> Inl e | Inr self' \<Rightarrow> parse_blocks self' bs)"

text \<open>
  \<open>_parse\<close> on an instance: \<open>self.captions\<close> is emptied, \<open>self.blocks\<close> computed, and the
  blocks are parsed. \<open>self.styles\<close> is what the instance held before.
\<close>

definition WebVTTParser_parse :: "parser \<Rightarrow> string list \<Rightarrow> error + parser" where
  "WebVTTParser_parse self ls =
     (let self1 = self\<lparr>captions := []\<rparr>;
          self2 = self1\<lparr>blocks := compute_blocks ls\<rparr>
      in parse_blocks self2 (blocks self2))"

text \<open>\<open>read_from_buffer\<close> once the lines are read: \<open>_validate\<close>, then \<open>_parse\<close>.\<close>

definition WebVTTParser_read :: "parser \<Rightarrow> string list \<Rightarrow> error + parser" where
  "WebVTTParser_read self ls =
     (case WebVTTParser_validate ls of Inl e \<Rightarrow> Inl e | Inr _ \<Rightarrow> WebVTTParser_parse self ls)"

subsection \<open>\<open>WebVTTParserCDP._parse\<close>\<close>

text \<open>
  The loop keeps, besides the instance, the locals \<open>group_captions\<close> and \<open>start_time\<close>
  (the local \<open>caption\<close> is assigned before every read).
\<close>

type_synonym gstate = "parser \<times> string \<times> string"

definition parse_block_cdp :: "gstate \<Rightarrow> block \<Rightarrow> error + gstate" where
  "parse_block_cdp st b =
     (case st of (self, group_captions, start_time) \<Rightarrow>
        if is_cue_block b then
          (case parse_cue_block True b of
             Inl e \<Rightarrow> Inl e
           | Inr cap \<Rightarrow>
               let start_time1 = (if group_captions = [] then start cap else start_time);
                   group_captions1 = group_captions @ '' '' @ caption_text cap
               in if flagEndSentence cap then
                    Inr (self\<lparr>captions := captions self
                                  @ [(set_text group_captions1 cap)\<lparr>start := start_time1\<rparr>]\<rparr>,
                         [], start_time1)
                  else Inr (self, group_captions1, start_time1))
        else if block_lines b = [] then Inl IndexError
        else if is_comment_block b then Inr st
        else if is_style_block b then
          (if captions self \<noteq> [] then Inl (style_after_cue b)
           else Inr (self\<lparr>styles := styles self @ [Style_of b]\<rparr>, group_captions, start_time))
        else Inl (malformed_block b))"

fun parse_blocks_cdp :: "gstate \<Rightarrow> block list \<Rightarrow> error + gstate" where
  "parse_blocks_cdp st [] = Inr st"
| "parse_blocks_cdp st (b # bs) =
     (case parse_block_cdp st b of Inl e \<Rightarrow> Inl e | Inr st' \<Rightarrow> parse_blocks_cdp st' bs)"

definition WebVTTParserCDP_parse :: "parser \<Rightarrow> string list \<Rightarrow> error + parser" where
  "WebVTTParserCDP_parse self ls =
     (let self1 = self\<lparr>captions := []\<rparr>;
          self2 = self1\<lparr>blocks := compute_blocks ls\<rparr>
      in case parse_blocks_cdp (self2, [], ''00:00:00.000'') (blocks self2) of
           Inl e \<Rightarrow> Inl e
         | Inr (self', _, _) \<Rightarrow> Inr self')"

section \<open>Helper lemmas\<close>

lemma startswith_hd: "startswith (p # ps) s \<Longrightarrow> p \<in> set s"
  by (cases s) auto

lemma contains_hd: "contains (p # ps) s \<Longrightarrow> p \<in> set s"
  by (induction s) (auto dest: startswith_hd)

lemma isdigit_no_arrow:
  assumes "isdigit s"
  shows "\<not> contains ''-->'' s"
proof
  assume "contains ''-->'' s"
  then have m: "CHR ''-'' \<in> set s" by (rule contains_hd)
  from assms have "\<forall>c \<in> set s. is_digit c \<or> c \<in> set [CHR 0xB2, CHR 0xB3, CHR 0xB9]"
    by (simp add: isdigit_def list_all_iff)
  with m have "is_digit CHR ''-'' \<or> CHR ''-'' \<in> set [CHR 0xB2, CHR 0xB3, CHR 0xB9]"
    by blast
  then show False by (simp add: is_digit_def)
qed

lemma Caption0_times: "Caption0\<lparr>start := s, end' := e\<rparr> = Caption s e"
  by (simp add: Caption0_def Caption_def)

subsection \<open>The loop of \<open>TextBasedParser._parse\<close>\<close>

text \<open>Every caption already in \<open>self.captions\<close> has a line: an invariant of the loop.\<close>

lemma parse_line_texted:
  assumes "parse_line g st i l = Inr st'" and "\<forall>c \<in> set (fst st). lines c \<noteq> []"
  shows "\<forall>c \<in> set (fst st'). lines c \<noteq> []"
proof -
  obtain caps c where st: "st = (caps, c)" by (cases st)
  show ?thesis
  proof (cases "is_timeframe_line g l")
    case True
    with assms st show ?thesis
      by (auto simp: parse_line_def split: sum.splits error.splits)
  next
    case False
    note nt = this
    show ?thesis
    proof (cases "should_skip_line g l i c")
      case True
      with assms st nt show ?thesis by (simp add: parse_line_def)
    next
      case False
      with assms st nt show ?thesis
        by (cases c) (auto simp: parse_line_def split: if_splits)
    qed
  qed
qed

lemma parse_lines_texted:
  "parse_lines g st i ls = Inr st' \<Longrightarrow> \<forall>c \<in> set (fst st). lines c \<noteq> [] \<Longrightarrow>
   \<forall>c \<in> set (fst st'). lines c \<noteq> []"
proof (induction ls arbitrary: st i)
  case Nil
  then show ?case by simp
next
  case (Cons l ls)
  from Cons.prems(1) obtain st1 where
    1: "parse_line g st i l = Inr st1" and 2: "parse_lines g st1 (Suc i) ls = Inr st'"
    by (auto split: sum.splits)
  from 1 Cons.prems(2) have "\<forall>c \<in> set (fst st1). lines c \<noteq> []" by (rule parse_line_texted)
  with 2 show ?case by (rule Cons.IH)
qed

lemma finish_texted:
  "\<forall>c \<in> set (fst st). lines c \<noteq> [] \<Longrightarrow> \<forall>c \<in> set (finish st). lines c \<noteq> []"
  by (cases st) (auto simp: finish_def split: option.splits)

lemma TextBasedParser_parse_texted:
  assumes "TextBasedParser_parse g ls = Inr caps"
  shows "\<forall>c \<in> set caps. lines c \<noteq> []"
proof -
  from assms obtain st where
    st: "parse_lines g ([], None) 0 ls = Inr st" and caps: "caps = finish st"
    by (auto simp: TextBasedParser_parse_def split: sum.splits)
  have "\<forall>c \<in> set (fst ([]::caption list, None::caption option)). lines c \<noteq> []" by simp
  with st have "\<forall>c \<in> set (fst st). lines c \<noteq> []" by (rule parse_lines_texted)
  with caps show ?thesis by (simp add: finish_texted)
qed

subsection \<open>The steps of \<open>SRTParser\<close>\<close>

text \<open>
  The iterations of the loop on the four kinds of line of the numbered-cue format, for
  the grammar of \<open>SRTParser\<close> with the option \<open>ignore_empty_captions\<close> set to \<open>opt\<close>
  (\<open>SRTParser\<close> itself has it set).
\<close>

lemma SRT_opt_True: "SRTParser\<lparr>ignore_empty_captions := True\<rparr> = SRTParser"
  by (simp add: SRTParser_def)

lemma SRT_timing:
  "contains ''-->'' t \<Longrightarrow> parse_timeframe_line SRT_TIMEFRAME_LINE_PATTERN t = Inr (s, e) \<Longrightarrow>
   parse_line (SRTParser\<lparr>ignore_empty_captions := opt\<rparr>) (caps, c) i t
     = Inr (caps, Some (Caption s e))"
  by (simp add: parse_line_def SRTParser_def)

lemma SRT_index:
  "isdigit l \<Longrightarrow>
   parse_line (SRTParser\<lparr>ignore_empty_captions := opt\<rparr>) (caps, None) i l = Inr (caps, None)"
  by (simp add: parse_line_def SRTParser_def isdigit_no_arrow)

lemma SRT_text:
  "l \<noteq> [] \<Longrightarrow> \<not> contains ''-->'' l \<Longrightarrow>
   parse_line (SRTParser\<lparr>ignore_empty_captions := opt\<rparr>) (caps, Some c) i l
     = Inr (caps, Some (add_line l c))"
  by (simp add: parse_line_def SRTParser_def)

lemma SRT_blank:
  "parse_line (SRTParser\<lparr>ignore_empty_captions := opt\<rparr>) (caps, Some c) i [] =
     (if lines c = [] then
        (if opt then Inr (caps, None)
         else Inl (MalformedCaptionError
                (''Caption missing text in line '' @ str_nat (i + 1) @ ''.'')))
      else Inr (caps @ [c], None))"
  by (simp add: parse_line_def SRTParser_def)

lemma SRT_six_lines:
  assumes "isdigit i1" and "isdigit i2"
      and "contains ''-->'' t1"
      and "parse_timeframe_line SRT_TIMEFRAME_LINE_PATTERN t1 = Inr (s1, e1)"
      and "contains ''-->'' t2"
      and "parse_timeframe_line SRT_TIMEFRAME_LINE_PATTERN t2 = Inr (s2, e2)"
      and "txt \<noteq> []" and "\<not> contains ''-->'' txt"
  shows "parse_lines (SRTParser\<lparr>ignore_empty_captions := opt\<rparr>) ([], None) 0
           ([i1, t1, txt, [], i2, t2] @ rest)
           = parse_lines (SRTParser\<lparr>ignore_empty_captions := opt\<rparr>)
               ([add_line txt (Caption s1 e1)], Some (Caption s2 e2)) 6 rest"
proof -
  have l1: "lines (add_line txt (Caption s1 e1)) \<noteq> []" by (simp add: add_line_def)
  have n: "Suc (Suc (Suc (Suc (Suc (Suc 0))))) = 6" by simp
  show ?thesis
    using assms l1 by (simp add: SRT_timing SRT_index SRT_text SRT_blank n)
qed

subsection \<open>A cue block that is a timing line only\<close>

lemma timing_only_block:
  assumes "is_cue_timings_line t"
      and "parse_timeframe_line WebVTT_TIMEFRAME_LINE_PATTERN t = Inr (s, e)"
  shows "parse_block self \<lparr>line_number = n, block_lines = [t]\<rparr>
           = Inr (self\<lparr>captions := captions self @ [Caption s e]\<rparr>)"
proof -
  have 1: "is_cue_block \<lparr>line_number = n, block_lines = [t]\<rparr>"
    using assms(1) by (simp add: is_cue_block_def)
  have 2: "parse_cue_line False n (Caption0, None) 0 t = Inr (Caption0, Some (s, e))"
    using assms by (simp add: parse_cue_line_def)
  have 3: "parse_cue_block False \<lparr>line_number = n, block_lines = [t]\<rparr> = Inr (Caption s e)"
    by (simp add: parse_cue_block_def 2 Caption0_times)
  show ?thesis by (simp add: parse_block_def 1 3)
qed

section \<open>Helper lemmas on the block-structured parsers\<close>

lemma parse_blocks_cdp_append:
  "parse_blocks_cdp st (xs @ ys) =
     (case parse_blocks_cdp st xs of Inl e \<Rightarrow> Inl e | Inr st' \<Rightarrow> parse_blocks_cdp st' ys)"
  by (induction xs arbitrary: st) (auto split: sum.splits)

text \<open>A line cannot match both header patterns: the style branch is reached.\<close>

lemma comment_startswith: "re_match COMMENT_PATTERN l \<noteq> None \<Longrightarrow> startswith ''NOTE'' l"
  by (auto simp: re_match_def COMMENT_PATTERN_def split: if_splits)

lemma style_startswith: "re_match STYLE_PATTERN l \<noteq> None \<Longrightarrow> startswith ''STYLE'' l"
  by (auto simp: re_match_def STYLE_PATTERN_def split: if_splits)

lemma style_not_comment: "is_style_block b \<Longrightarrow> \<not> is_comment_block b"
proof
  assume "is_style_block b" and "is_comment_block b"
  then have "startswith ''STYLE'' (hd (block_lines b))"
    and "startswith ''NOTE'' (hd (block_lines b))"
    by (simp_all add: is_style_block_def is_comment_block_def style_startswith comment_startswith)
  then show False by (cases "hd (block_lines b)") auto
qed

subsection \<open>Blocks of a timing line and a text line\<close>

lemma two_cue_blocks:
  assumes "sig \<noteq> []" and "t1 \<noteq> []" and "t2 \<noteq> []" and "x1 \<noteq> []" and "x2 \<noteq> []"
  shows "compute_blocks [sig, [], t1, x1, [], t2, x2]
           = [\<lparr>line_number = 3, block_lines = [t1, x1]\<rparr>,
              \<lparr>line_number = 6, block_lines = [t2, x2]\<rparr>]"
  using assms by (simp add: compute_blocks_def compute_blocks_line_def Block_def Let_def)

lemma cue_block_with_text:
  assumes "is_cue_timings_line t"
      and "parse_timeframe_line WebVTT_TIMEFRAME_LINE_PATTERN t = Inr (s, e)"
      and "\<not> is_cue_timings_line x"
  shows "parse_cue_block True \<lparr>line_number = n, block_lines = [t, x]\<rparr>
           = Inr \<lparr>identifier = None, start = s, end' = e, lines = [x],
                  flagEndSentence = group_by_sentence x\<rparr>"
proof -
  have 1: "parse_cue_line True n (Caption0, None) 0 t = Inr (Caption0, Some (s, e))"
    using assms(1,2) by (simp add: parse_cue_line_def)
  have 2: "parse_cue_line True n (Caption0, Some (s, e)) (Suc 0) x
             = Inr (add_line x (if group_by_sentence x then Caption0\<lparr>flagEndSentence := True\<rparr>
                                else Caption0), Some (s, e))"
    using assms(3) by (simp add: parse_cue_line_def)
  have 3: "parse_cue_lines True n (Caption0, None) 0 [t, x]
             = Inr (add_line x (if group_by_sentence x then Caption0\<lparr>flagEndSentence := True\<rparr>
                                else Caption0), Some (s, e))"
    by (simp add: 1 2)
  have 4: "(add_line x (if group_by_sentence x then Caption0\<lparr>flagEndSentence := True\<rparr>
                          else Caption0))\<lparr>start := s, end' := e\<rparr>
             = \<lparr>identifier = None, start = s, end' = e, lines = [x],
                flagEndSentence = group_by_sentence x\<rparr>"
    by (simp add: add_line_def Caption0_def Caption_def)
  show ?thesis
    by (simp add: parse_cue_block_def 3 4 del: parse_cue_lines.simps)
qed

lemma two_line_cue_block:
  "is_cue_timings_line t \<Longrightarrow> is_cue_block \<lparr>line_number = n, block_lines = [t, x]\<rparr>"
  by (simp add: is_cue_block_def)

subsection \<open>The flag is set exactly when a text line matches \<open>IDENTIFY_SENTENCE\<close>\<close>

lemma parse_cue_line_flag:
  assumes "parse_cue_line True bln (cap, tm) n l = Inr (cap', tm')"
      and "flagEndSentence cap = (\<exists>x \<in> set (lines cap). group_by_sentence x)"
  shows "flagEndSentence cap' = (\<exists>x \<in> set (lines cap'). group_by_sentence x)"
proof (cases "is_cue_timings_line l")
  case True
  with assms show ?thesis
    by (auto simp: parse_cue_line_def split: option.splits sum.splits error.splits)
next
  case False
  with assms show ?thesis
    by (cases "n = 0"; cases "group_by_sentence l") (auto simp: parse_cue_line_def add_line_def)
qed

lemma parse_cue_lines_flag:
  "parse_cue_lines True bln (cap, tm) n ls = Inr (cap', tm') \<Longrightarrow>
   flagEndSentence cap = (\<exists>x \<in> set (lines cap). group_by_sentence x) \<Longrightarrow>
   flagEndSentence cap' = (\<exists>x \<in> set (lines cap'). group_by_sentence x)"
proof (induction ls arbitrary: cap tm n)
  case Nil
  then show ?case by simp
next
  case (Cons l ls)
  from Cons.prems(1) obtain cap1 tm1 where
    1: "parse_cue_line True bln (cap, tm) n l = Inr (cap1, tm1)"
    and 2: "parse_cue_lines True bln (cap1, tm1) (Suc n) ls = Inr (cap', tm')"
    by (auto split: sum.splits)
  from 1 Cons.prems(2)
  have "flagEndSentence cap1 = (\<exists>x \<in> set (lines cap1). group_by_sentence x)"
    by (rule parse_cue_line_flag)
  with 2 show ?case by (rule Cons.IH)
qed

lemma parse_cue_block_flag:
  assumes "parse_cue_block True b = Inr c"
  shows "flagEndSentence c = (\<exists>x \<in> set (lines c). group_by_sentence x)"
proof -
  from assms obtain cap s e where
    1: "parse_cue_lines True (line_number b) (Caption0, None) 0 (block_lines b)
          = Inr (cap, Some (s, e))"
    and c: "c = cap\<lparr>start := s, end' := e\<rparr>"
    by (auto simp: parse_cue_block_def split: sum.splits option.splits)
  have "flagEndSentence Caption0 = (\<exists>x \<in> set (lines Caption0). group_by_sentence x)"
    by (simp add: Caption0_def Caption_def)
  with 1 have "flagEndSentence cap = (\<exists>x \<in> set (lines cap). group_by_sentence x)"
    by (rule parse_cue_lines_flag)
  with c show ?thesis by simp
qed

text \<open>A cue without terminal punctuation leaves the instance as it is.\<close>

lemma unterminated_cue_step:
  assumes "is_cue_block b" and "parse_cue_block True b = Inr c"
      and "\<forall>l \<in> set (lines c). \<not> group_by_sentence l"
  shows "\<exists>grp' tm'. parse_block_cdp (self, grp, tm) b = Inr (self, grp', tm')"
proof -
  from assms(2,3) have "\<not> flagEndSentence c" by (simp add: parse_cue_block_flag)
  with assms(1,2) show ?thesis by (simp add: parse_block_cdp_def Let_def)
qed

lemma unterminated_cues:
  "\<forall>b \<in> set trail. is_cue_block b \<and>
      (\<exists>c. parse_cue_block True b = Inr c \<and> (\<forall>l \<in> set (lines c). \<not> group_by_sentence l)) \<Longrightarrow>
   \<exists>grp' tm'. parse_blocks_cdp (self, grp, tm) trail = Inr (self, grp', tm')"
proof (induction trail arbitrary: grp tm)
  case Nil
  then show ?case by simp
next
  case (Cons b bs)
  from Cons.prems obtain c where "is_cue_block b" "parse_cue_block True b = Inr c"
    "\<forall>l \<in> set (lines c). \<not> group_by_sentence l" by auto
  then obtain grp1 tm1 where 1: "parse_block_cdp (self, grp, tm) b = Inr (self, grp1, tm1)"
    using unterminated_cue_step by blast
  from Cons.prems have "\<forall>b \<in> set bs. is_cue_block b \<and>
      (\<exists>c. parse_cue_block True b = Inr c \<and> (\<forall>l \<in> set (lines c). \<not> group_by_sentence l))"
    by simp
  then obtain grp' tm' where "parse_blocks_cdp (self, grp1, tm1) bs = Inr (self, grp', tm')"
    using Cons.IH by blast
  with 1 show ?case by simp
qed

subsection \<open>Once a caption is in \<open>self.captions\<close>, \<open>self.styles\<close> stays as it is\<close>

lemma parse_block_after_caption:
  assumes "captions self \<noteq> []" and "parse_block self b = Inr self'"
  shows "styles self' = styles self \<and> captions self' \<noteq> []"
  using assms by (auto simp: parse_block_def split: if_splits sum.splits)

lemma parse_blocks_after_caption:
  "captions self \<noteq> [] \<Longrightarrow> parse_blocks self bs = Inr self' \<Longrightarrow> styles self' = styles self"
proof (induction bs arbitrary: self)
  case Nil
  then show ?case by simp
next
  case (Cons b bs)
  from Cons.prems(2) obtain self1 where
    1: "parse_block self b = Inr self1" and 2: "parse_blocks self1 bs = Inr self'"
    by (auto split: sum.splits)
  from Cons.prems(1) 1 have 3: "styles self1 = styles self \<and> captions self1 \<noteq> []"
    by (rule parse_block_after_caption)
  with 2 Cons.IH have "styles self' = styles self1" by blast
  with 3 show ?case by simp
qed

lemma parse_block_cdp_after_caption:
  assumes "captions self \<noteq> []"
      and "parse_block_cdp (self, grp, tm) b = Inr (self', grp', tm')"
  shows "styles self' = styles self \<and> captions self' \<noteq> []"
proof (cases "is_cue_block b")
  case True
  with assms show ?thesis
    by (auto simp: parse_block_cdp_def Let_def split: sum.splits if_splits)
next
  case False
  with assms show ?thesis
    by (auto simp: parse_block_cdp_def split: if_splits)
qed

lemma parse_blocks_cdp_after_caption:
  "captions self \<noteq> [] \<Longrightarrow> parse_blocks_cdp (self, grp, tm) bs = Inr (self', grp', tm') \<Longrightarrow>
   styles self' = styles self"
proof (induction bs arbitrary: self grp tm)
  case Nil
  then show ?case by simp
next
  case (Cons b bs)
  from Cons.prems(2) obtain self1 grp1 tm1 where
    1: "parse_block_cdp (self, grp, tm) b = Inr (self1, grp1, tm1)"
    and 2: "parse_blocks_cdp (self1, grp1, tm1) bs = Inr (self', grp', tm')"
    by (auto split: sum.splits)
  from Cons.prems(1) 1 have 3: "styles self1 = styles self \<and> captions self1 \<noteq> []"
    by (rule parse_block_cdp_after_caption)
  with 2 Cons.IH have "styles self' = styles self1" by blast
  with 3 show ?case by simp
qed

subsection \<open>The text lines of a cue block's caption\<close>

text \<open>
  The caption of a cue block has as text lines the lines of the block after the first
  that carry no timing marker, in both classes.
\<close>

lemma parse_cue_line_lines:
  assumes "parse_cue_line cdp bln (cap, tm) n l = Inr (cap', tm')"
  shows "lines cap' = lines cap @ (if n = 0 \<or> is_cue_timings_line l then [] else [l])"
proof (cases "is_cue_timings_line l")
  case True
  with assms show ?thesis
    by (auto simp: parse_cue_line_def split: option.splits sum.splits error.splits)
next
  case False
  with assms show ?thesis
    by (cases "n = 0") (auto simp: parse_cue_line_def add_line_def)
qed

lemma parse_cue_lines_lines:
  "parse_cue_lines cdp bln (cap, tm) n ls = Inr (cap', tm') \<Longrightarrow>
   lines cap' = lines cap
      @ filter (\<lambda>l. \<not> is_cue_timings_line l) (if n = 0 then drop 1 ls else ls)"
proof (induction ls arbitrary: cap tm n)
  case Nil
  then show ?case by simp
next
  case (Cons l ls)
  from Cons.prems obtain cap1 tm1 where
    1: "parse_cue_line cdp bln (cap, tm) n l = Inr (cap1, tm1)"
    and 2: "parse_cue_lines cdp bln (cap1, tm1) (Suc n) ls = Inr (cap', tm')"
    by (auto split: sum.splits)
  from 1 have 3: "lines cap1 = lines cap @ (if n = 0 \<or> is_cue_timings_line l then [] else [l])"
    by (rule parse_cue_line_lines)
  from 2 have "lines cap' = lines cap1
      @ filter (\<lambda>l. \<not> is_cue_timings_line l) (if Suc n = 0 then drop 1 ls else ls)"
    by (rule Cons.IH)
  with 3 show ?case by simp
qed

lemma parse_cue_block_lines:
  assumes "parse_cue_block cdp b = Inr c"
  shows "lines c = filter (\<lambda>l. \<not> is_cue_timings_line l) (drop 1 (block_lines b))"
proof -
  from assms obtain cap s e where
    1: "parse_cue_lines cdp (line_number b) (Caption0, None) 0 (block_lines b)
          = Inr (cap, Some (s, e))"
    and c: "c = cap\<lparr>start := s, end' := e\<rparr>"
    by (auto simp: parse_cue_block_def split: sum.splits option.splits)
  from 1 have "lines cap = lines Caption0
      @ filter (\<lambda>l. \<not> is_cue_timings_line l)
          (if (0::nat) = 0 then drop 1 (block_lines b) else block_lines b)"
    by (rule parse_cue_lines_lines)
  with c show ?thesis by (simp add: Caption0_def Caption_def)
qed

subsection \<open>Captions with a text line: invariants of the two loops over the blocks\<close>

lemma parse_block_cdp_texted:
  assumes "parse_block_cdp (self, grp, tm) b = Inr (self', grp', tm')"
      and "\<forall>c \<in> set (captions self). lines c \<noteq> []"
  shows "\<forall>c \<in> set (captions self'). lines c \<noteq> []"
proof (cases "is_cue_block b")
  case True
  with assms show ?thesis
    by (auto simp: parse_block_cdp_def Let_def set_text_def split: sum.splits if_splits)
next
  case False
  with assms show ?thesis
    by (auto simp: parse_block_cdp_def split: if_splits)
qed

lemma parse_blocks_cdp_texted:
  "parse_blocks_cdp (self, grp, tm) bs = Inr (self', grp', tm') \<Longrightarrow>
   \<forall>c \<in> set (captions self). lines c \<noteq> [] \<Longrightarrow>
   \<forall>c \<in> set (captions self'). lines c \<noteq> []"
proof (induction bs arbitrary: self grp tm)
  case Nil
  then show ?case by simp
next
  case (Cons b bs)
  from Cons.prems(1) obtain self1 grp1 tm1 where
    1: "parse_block_cdp (self, grp, tm) b = Inr (self1, grp1, tm1)"
    and 2: "parse_blocks_cdp (self1, grp1, tm1) bs = Inr (self', grp', tm')"
    by (auto split: sum.splits)
  from 1 Cons.prems(2) have "\<forall>c \<in> set (captions self1). lines c \<noteq> []"
    by (rule parse_block_cdp_texted)
  with 2 show ?case by (rule Cons.IH)
qed

lemma WebVTTParserCDP_parse_texted:
  assumes "WebVTTParserCDP_parse self ls = Inr p"
  shows "\<forall>c \<in> set (captions p). lines c \<noteq> []"
proof -
  from assms obtain grp tm where
    1: "parse_blocks_cdp
          (self\<lparr>captions := [], blocks := compute_blocks ls\<rparr>, [], ''00:00:00.000'')
          (compute_blocks ls) = Inr (p, grp, tm)"
    by (auto simp: WebVTTParserCDP_parse_def Let_def split: sum.splits)
  have "\<forall>c \<in> set (captions (self\<lparr>captions := [], blocks := compute_blocks ls\<rparr>)).
          lines c \<noteq> []"
    by simp
  with 1 show ?thesis by (rule parse_blocks_cdp_texted)
qed

lemma parse_block_cue:
  assumes "is_cue_block b" and "parse_cue_block False b = Inr c"
  shows "parse_block self b = Inr (self\<lparr>captions := captions self @ [c]\<rparr>)"
  using assms by (simp add: parse_block_def)

lemma parse_block_texted:
  assumes "parse_block self b = Inr self'"
      and "is_cue_block b \<longrightarrow>
             filter (\<lambda>l. \<not> is_cue_timings_line l) (drop 1 (block_lines b)) \<noteq> []"
      and "\<forall>c \<in> set (captions self). lines c \<noteq> []"
  shows "\<forall>c \<in> set (captions self'). lines c \<noteq> []"
proof (cases "is_cue_block b")
  case True
  with assms(1) obtain c where c: "parse_cue_block False b = Inr c"
    and s: "self' = self\<lparr>captions := captions self @ [c]\<rparr>"
    by (auto simp: parse_block_def split: sum.splits)
  from c have "lines c = filter (\<lambda>l. \<not> is_cue_timings_line l) (drop 1 (block_lines b))"
    by (rule parse_cue_block_lines)
  with True assms(2) have "lines c \<noteq> []" by simp
  with s assms(3) show ?thesis by auto
next
  case False
  with assms show ?thesis
    by (auto simp: parse_block_def split: if_splits)
qed

lemma parse_blocks_texted:
  "parse_blocks self bs = Inr self' \<Longrightarrow>
   \<forall>b \<in> set bs. is_cue_block b \<longrightarrow>
      filter (\<lambda>l. \<not> is_cue_timings_line l) (drop 1 (block_lines b)) \<noteq> [] \<Longrightarrow>
   \<forall>c \<in> set (captions self). lines c \<noteq> [] \<Longrightarrow>
   \<forall>c \<in> set (captions self'). lines c \<noteq> []"
proof (induction bs arbitrary: self)
  case Nil
  then show ?case by simp
next
  case (Cons b bs)
  from Cons.prems(1) obtain self1 where
    1: "parse_block self b = Inr self1" and 2: "parse_blocks self1 bs = Inr self'"
    by (auto split: sum.splits)
  from Cons.prems(2) have b: "is_cue_block b \<longrightarrow>
      filter (\<lambda>l. \<not> is_cue_timings_line l) (drop 1 (block_lines b)) \<noteq> []"
    and bs: "\<forall>b \<in> set bs. is_cue_block b \<longrightarrow>
      filter (\<lambda>l. \<not> is_cue_timings_line l) (drop 1 (block_lines b)) \<noteq> []"
    by simp_all
  from 1 b Cons.prems(3) have "\<forall>c \<in> set (captions self1). lines c \<noteq> []"
    by (rule parse_block_texted)
  with 2 bs show ?case by (rule Cons.IH)
qed

lemma WebVTTParser_parse_texted:
  assumes "WebVTTParser_parse self ls = Inr p"
      and "\<forall>b \<in> set (compute_blocks ls). is_cue_block b \<longrightarrow>
             filter (\<lambda>l. \<not> is_cue_timings_line l) (drop 1 (block_lines b)) \<noteq> []"
  shows "\<forall>c \<in> set (captions p). lines c \<noteq> []"
proof -
  from assms(1) have
    1: "parse_blocks (self\<lparr>captions := [], blocks := compute_blocks ls\<rparr>) (compute_blocks ls)
          = Inr p"
    by (simp add: WebVTTParser_parse_def Let_def)
  have "\<forall>c \<in> set (captions (self\<lparr>captions := [], blocks := compute_blocks ls\<rparr>)).
          lines c \<noteq> []"
    by simp
  with 1 assms(2) show ?thesis by (rule parse_blocks_texted)
qed

section \<open>Captions and their text lines\<close>

text \<open>
  Claim C1, as stated, fails on \<open>WebVTTParser\<close>: the file with the signature, a blank
  line and a cue block that is only a timing line is read without error, and the
  caption it yields has no text line.
\<close>

theorem block_parser_emits_caption_without_text:
  "WebVTTParser_read WebVTTParser_init [''WEBVTT'', [], ''00:00:01.000 --> 00:00:02.000'']
   = Inr \<lparr>captions = [\<lparr>identifier = None, start = ''00:00:01.000'', end' = ''00:00:02.000'',
                          lines = [], flagEndSentence = False\<rparr>],
          styles = [],
          blocks = [\<lparr>line_number = 3, block_lines = [''00:00:01.000 --> 00:00:02.000'']\<rparr>]\<rparr>"
  by code_simp

text \<open>
  Claim C1, amended. Every caption the generic line-classifying parser returns has at
  least one text line, whatever the grammar and its empty-caption option, and so has
  every caption \<open>WebVTTParserCDP\<close> leaves in its output. \<open>WebVTTParser\<close> appends the
  caption of each cue block that \<open>_parse_cue_block\<close> returns; its text lines are the
  lines of the block after the first that carry no timing marker. So every caption of
  \<open>WebVTTParser\<close> has a text line when every cue block of the input has such a line,
  and a cue block that is a valid timing line only gives a caption without text line.
\<close>

theorem captions_have_text:
  "(TextBasedParser_parse g ls = Inr caps \<longrightarrow> (\<forall>c \<in> set caps. lines c \<noteq> []))
   \<and> (WebVTTParserCDP_parse self1 ls1 = Inr p1 \<longrightarrow> (\<forall>c \<in> set (captions p1). lines c \<noteq> []))
   \<and> (is_cue_block b \<longrightarrow> parse_cue_block False b = Inr cap
        \<longrightarrow> parse_block self b = Inr (self\<lparr>captions := captions self @ [cap]\<rparr>)
            \<and> lines cap = filter (\<lambda>l. \<not> is_cue_timings_line l) (drop 1 (block_lines b)))
   \<and> (WebVTTParser_parse self2 ls2 = Inr p2
        \<longrightarrow> (\<forall>b \<in> set (compute_blocks ls2). is_cue_block b \<longrightarrow>
               filter (\<lambda>l. \<not> is_cue_timings_line l) (drop 1 (block_lines b)) \<noteq> [])
        \<longrightarrow> (\<forall>c \<in> set (captions p2). lines c \<noteq> []))
   \<and> (is_cue_timings_line t
        \<longrightarrow> parse_timeframe_line WebVTT_TIMEFRAME_LINE_PATTERN t = Inr (s, e)
        \<longrightarrow> parse_block self \<lparr>line_number = n, block_lines = [t]\<rparr>
              = Inr (self\<lparr>captions := captions self @ [Caption s e]\<rparr>)
            \<and> lines (Caption s e) = [])"
proof (intro conjI impI)
  assume "TextBasedParser_parse g ls = Inr caps"
  then show "\<forall>c \<in> set caps. lines c \<noteq> []" by (rule TextBasedParser_parse_texted)
next
  assume "WebVTTParserCDP_parse self1 ls1 = Inr p1"
  then show "\<forall>c \<in> set (captions p1). lines c \<noteq> []" by (rule WebVTTParserCDP_parse_texted)
next
  assume "is_cue_block b" and "parse_cue_block False b = Inr cap"
  then show "parse_block self b = Inr (self\<lparr>captions := captions self @ [cap]\<rparr>)"
    by (rule parse_block_cue)
next
  assume "parse_cue_block False b = Inr cap"
  then show "lines cap = filter (\<lambda>l. \<not> is_cue_timings_line l) (drop 1 (block_lines b))"
    by (rule parse_cue_block_lines)
next
  assume "WebVTTParser_parse self2 ls2 = Inr p2"
    and "\<forall>b \<in> set (compute_blocks ls2). is_cue_block b \<longrightarrow>
           filter (\<lambda>l. \<not> is_cue_timings_line l) (drop 1 (block_lines b)) \<noteq> []"
  then show "\<forall>c \<in> set (captions p2). lines c \<noteq> []" by (rule WebVTTParser_parse_texted)
next
  assume "is_cue_timings_line t"
    and "parse_timeframe_line WebVTT_TIMEFRAME_LINE_PATTERN t = Inr (s, e)"
  then show "parse_block self \<lparr>line_number = n, block_lines = [t]\<rparr>
               = Inr (self\<lparr>captions := captions self @ [Caption s e]\<rparr>)"
    by (rule timing_only_block)
next
  show "lines (Caption s e) = []" by (simp add: Caption_def)
qed

theorem captions_have_text_witness:
  "TextBasedParser_parse SBVParser [''0:00:01.000,0:00:02.500'', ''Hi there'']
     = Inr [add_line ''Hi there'' (Caption ''0:00:01.000'' ''0:00:02.500'')]
   \<and> lines (add_line ''Hi there'' (Caption ''0:00:01.000'' ''0:00:02.500'')) \<noteq> []
   \<and> WebVTTParserCDP_parse WebVTTParser_init
        [''WEBVTT'', [], ''00:00:01.000 --> 00:00:02.000'', ''Hi there.'']
       = Inr \<lparr>captions = [\<lparr>identifier = None, start = ''00:00:01.000'',
                              end' = ''00:00:02.000'', lines = ['' Hi there.''],
                              flagEndSentence = True\<rparr>],
              styles = [],
              blocks = [\<lparr>line_number = 3,
                          block_lines = [''00:00:01.000 --> 00:00:02.000'', ''Hi there.'']\<rparr>]\<rparr>
   \<and> lines \<lparr>identifier = None, start = ''00:00:01.000'', end' = ''00:00:02.000'',
             lines = ['' Hi there.''], flagEndSentence = True\<rparr> \<noteq> []
   \<and> is_cue_block
        \<lparr>line_number = 3, block_lines = [''intro'', ''00:00:01.000 --> 00:00:02.000'', ''Hi'', ''there'']\<rparr>
   \<and> parse_cue_block False
        \<lparr>line_number = 3, block_lines = [''intro'', ''00:00:01.000 --> 00:00:02.000'', ''Hi'', ''there'']\<rparr>
       = Inr \<lparr>identifier = Some ''intro'', start = ''00:00:01.000'', end' = ''00:00:02.000'',
              lines = [''Hi'', ''there''], flagEndSentence = False\<rparr>
   \<and> parse_block WebVTTParser_init
        \<lparr>line_number = 3, block_lines = [''intro'', ''00:00:01.000 --> 00:00:02.000'', ''Hi'', ''there'']\<rparr>
       = Inr (WebVTTParser_init\<lparr>captions := captions WebVTTParser_init
                @ [\<lparr>identifier = Some ''intro'', start = ''00:00:01.000'',
                    end' = ''00:00:02.000'', lines = [''Hi'', ''there''],
                    flagEndSentence = False\<rparr>]\<rparr>)
   \<and> WebVTTParser_parse WebVTTParser_init
        [''WEBVTT'', [], ''00:00:01.000 --> 00:00:02.000'', ''Hi there'']
       = Inr \<lparr>captions = [\<lparr>identifier = None, start = ''00:00:01.000'',
                              end' = ''00:00:02.000'', lines = [''Hi there''],
                              flagEndSentence = False\<rparr>],
              styles = [],
              blocks = [\<lparr>line_number = 3,
                          block_lines = [''00:00:01.000 --> 00:00:02.000'', ''Hi there'']\<rparr>]\<rparr>
   \<and> lines \<lparr>identifier = None, start = ''00:00:01.000'', end' = ''00:00:02.000'',
             lines = [''Hi there''], flagEndSentence = False\<rparr> \<noteq> []
   \<and> is_cue_timings_line ''00:00:01.000 --> 00:00:02.000''
   \<and> parse_timeframe_line WebVTT_TIMEFRAME_LINE_PATTERN ''00:00:01.000 --> 00:00:02.000''
       = Inr (''00:00:01.000'', ''00:00:02.000'')
   \<and> parse_block WebVTTParser_init
        \<lparr>line_number = 3, block_lines = [''00:00:01.000 --> 00:00:02.000'']\<rparr>
       = Inr (WebVTTParser_init\<lparr>captions := captions WebVTTParser_init
                @ [Caption ''00:00:01.000'' ''00:00:02.000'']\<rparr>)
   \<and> lines (Caption ''00:00:01.000'' ''00:00:02.000'') = []"
proof -
  let ?tl = "''00:00:01.000 --> 00:00:02.000''"
  let ?b = "\<lparr>line_number = 3, block_lines = [''intro'', ?tl, ''Hi'', ''there'']\<rparr>"
  let ?c = "\<lparr>identifier = Some ''intro'', start = ''00:00:01.000'', end' = ''00:00:02.000'',
             lines = [''Hi'', ''there''], flagEndSentence = False\<rparr>"
  let ?p1 = "\<lparr>captions = [\<lparr>identifier = None, start = ''00:00:01.000'',
                              end' = ''00:00:02.000'', lines = ['' Hi there.''],
                              flagEndSentence = True\<rparr>],
              styles = [],
              blocks = [\<lparr>line_number = 3, block_lines = [?tl, ''Hi there.'']\<rparr>]\<rparr>"
  let ?p2 = "\<lparr>captions = [\<lparr>identifier = None, start = ''00:00:01.000'',
                              end' = ''00:00:02.000'', lines = [''Hi there''],
                              flagEndSentence = False\<rparr>],
              styles = [],
              blocks = [\<lparr>line_number = 3, block_lines = [?tl, ''Hi there'']\<rparr>]\<rparr>"
  have 1: "TextBasedParser_parse SBVParser [''0:00:01.000,0:00:02.500'', ''Hi there'']
             = Inr [add_line ''Hi there'' (Caption ''0:00:01.000'' ''0:00:02.500'')]"
    by code_simp
  have 2: "WebVTTParserCDP_parse WebVTTParser_init [''WEBVTT'', [], ?tl, ''Hi there.''] = Inr ?p1"
    by code_simp
  have 3: "is_cue_block ?b" by code_simp
  have 4: "parse_cue_block False ?b = Inr ?c" by code_simp
  have 5: "WebVTTParser_parse WebVTTParser_init [''WEBVTT'', [], ?tl, ''Hi there''] = Inr ?p2"
    by code_simp
  have 6: "compute_blocks [''WEBVTT'', [], ?tl, ''Hi there'']
             = [\<lparr>line_number = 3, block_lines = [?tl, ''Hi there'']\<rparr>]"
    by code_simp
  have 7: "\<not> is_cue_timings_line ''Hi there''" by code_simp
  have 8: "\<forall>b \<in> set (compute_blocks [''WEBVTT'', [], ?tl, ''Hi there'']). is_cue_block b \<longrightarrow>
             filter (\<lambda>l. \<not> is_cue_timings_line l) (drop 1 (block_lines b)) \<noteq> []"
    using 7 by (simp add: 6)
  have 9: "is_cue_timings_line ?tl" by code_simp
  have 10: "parse_timeframe_line WebVTT_TIMEFRAME_LINE_PATTERN ?tl
              = Inr (''00:00:01.000'', ''00:00:02.000'')"
    by code_simp
  note inst = captions_have_text [where g = SBVParser
      and ls = "[''0:00:01.000,0:00:02.500'', ''Hi there'']"
      and caps = "[add_line ''Hi there'' (Caption ''0:00:01.000'' ''0:00:02.500'')]"
      and ?self1.0 = WebVTTParser_init and ?ls1.0 = "[''WEBVTT'', [], ?tl, ''Hi there.'']"
      and ?p1.0 = ?p1 and b = ?b and cap = ?c and self = WebVTTParser_init
      and ?self2.0 = WebVTTParser_init and ?ls2.0 = "[''WEBVTT'', [], ?tl, ''Hi there'']"
      and ?p2.0 = ?p2 and t = ?tl and s = "''00:00:01.000''" and e = "''00:00:02.000''"
      and n = 3]
  from inst 1 have a: "lines (add_line ''Hi there'' (Caption ''0:00:01.000'' ''0:00:02.500'')) \<noteq> []"
    by simp
  from inst 2 have b: "lines \<lparr>identifier = None, start = ''00:00:01.000'',
      end' = ''00:00:02.000'', lines = ['' Hi there.''], flagEndSentence = True\<rparr> \<noteq> []"
    by simp
  from inst 3 4 have c: "parse_block WebVTTParser_init ?b
       = Inr (WebVTTParser_init\<lparr>captions := captions WebVTTParser_init @ [?c]\<rparr>)"
    by blast
  from inst 5 8 have d: "lines \<lparr>identifier = None, start = ''00:00:01.000'',
      end' = ''00:00:02.000'', lines = [''Hi there''], flagEndSentence = False\<rparr> \<noteq> []"
    by simp
  from inst 9 10 have e: "parse_block WebVTTParser_init
        \<lparr>line_number = 3, block_lines = [?tl]\<rparr>
       = Inr (WebVTTParser_init\<lparr>captions := captions WebVTTParser_init
                @ [Caption ''00:00:01.000'' ''00:00:02.000'']\<rparr>)
      \<and> lines (Caption ''00:00:01.000'' ''00:00:02.000'') = []"
    by blast
  from 1 a 2 b 3 4 c 5 d 9 10 e show ?thesis by blast
qed

section \<open>The sentence-grouping parser\<close>

text \<open>
  Claim C2: two consecutive cue blocks, a timing line with the text \<open>Hello\<close> and a
  timing line with the text \<open>world.\<close>, give exactly one caption; its text is
  \<open>" Hello world."\<close>, its start the start of the first cue and its end the end of
  the second.
\<close>

theorem sentence_grouping_hello_world:
  assumes "sig \<noteq> []"
      and "is_cue_timings_line t1"
      and "parse_timeframe_line WebVTT_TIMEFRAME_LINE_PATTERN t1 = Inr (s1, e1)"
      and "is_cue_timings_line t2"
      and "parse_timeframe_line WebVTT_TIMEFRAME_LINE_PATTERN t2 = Inr (s2, e2)"
  shows "WebVTTParserCDP_parse self [sig, [], t1, ''Hello'', [], t2, ''world.'']
           = Inr (self\<lparr>captions := [\<lparr>identifier = None, start = s1, end' = e2,
                                        lines = ['' Hello world.''], flagEndSentence = True\<rparr>],
                       blocks := [\<lparr>line_number = 3, block_lines = [t1, ''Hello'']\<rparr>,
                                  \<lparr>line_number = 6, block_lines = [t2, ''world.'']\<rparr>]\<rparr>)
       \<and> caption_text \<lparr>identifier = None, start = s1, end' = e2,
                        lines = ['' Hello world.''], flagEndSentence = True\<rparr> = '' Hello world.''"
proof -
  have t: "t1 \<noteq> []" "t2 \<noteq> []"
    using assms(2,4) by (auto simp: is_cue_timings_line_def)
  have h: "\<not> is_cue_timings_line ''Hello''" "\<not> group_by_sentence ''Hello''" by code_simp+
  have w: "\<not> is_cue_timings_line ''world.''" "group_by_sentence ''world.''" by code_simp+
  have bs: "compute_blocks [sig, [], t1, ''Hello'', [], t2, ''world.'']
              = [\<lparr>line_number = 3, block_lines = [t1, ''Hello'']\<rparr>,
                 \<lparr>line_number = 6, block_lines = [t2, ''world.'']\<rparr>]"
    using assms(1) t by (simp add: two_cue_blocks)
  have c1: "parse_cue_block True \<lparr>line_number = 3, block_lines = [t1, ''Hello'']\<rparr>
              = Inr \<lparr>identifier = None, start = s1, end' = e1, lines = [''Hello''],
                     flagEndSentence = False\<rparr>"
    using cue_block_with_text [OF assms(2,3) h(1)] h(2) by simp
  have c2: "parse_cue_block True \<lparr>line_number = 6, block_lines = [t2, ''world.'']\<rparr>
              = Inr \<lparr>identifier = None, start = s2, end' = e2, lines = [''world.''],
                     flagEndSentence = True\<rparr>"
    using cue_block_with_text [OF assms(4,5) w(1)] w(2) by simp
  have k: "is_cue_block \<lparr>line_number = 3, block_lines = [t1, ''Hello'']\<rparr>"
    "is_cue_block \<lparr>line_number = 6, block_lines = [t2, ''world.'']\<rparr>"
    using assms(2,4) by (simp_all add: two_line_cue_block)
  show ?thesis
    by (simp add: WebVTTParserCDP_parse_def bs parse_block_cdp_def k c1 c2 caption_text_def
          set_text_def Let_def)
qed

theorem sentence_grouping_hello_world_witness:
  "WebVTTParser_validate
     [''WEBVTT'', [], ''00:00:01.000 --> 00:00:02.000'', ''Hello'', [],
      ''00:00:02.000 --> 00:00:03.500'', ''world.''] = Inr ()
   \<and> WebVTTParserCDP_parse WebVTTParser_init
     [''WEBVTT'', [], ''00:00:01.000 --> 00:00:02.000'', ''Hello'', [],
      ''00:00:02.000 --> 00:00:03.500'', ''world.'']
     = Inr \<lparr>captions = [\<lparr>identifier = None, start = ''00:00:01.000'', end' = ''00:00:03.500'',
                            lines = ['' Hello world.''], flagEndSentence = True\<rparr>],
            styles = [],
            blocks = [\<lparr>line_number = 3,
                        block_lines = [''00:00:01.000 --> 00:00:02.000'', ''Hello'']\<rparr>,
                      \<lparr>line_number = 6,
                        block_lines = [''00:00:02.000 --> 00:00:03.500'', ''world.'']\<rparr>]\<rparr>"
proof -
  have 0: "WebVTTParser_validate
     [''WEBVTT'', [], ''00:00:01.000 --> 00:00:02.000'', ''Hello'', [],
      ''00:00:02.000 --> 00:00:03.500'', ''world.''] = Inr ()"
    by code_simp
  have 1: "''WEBVTT'' \<noteq> []" by simp
  have 2: "is_cue_timings_line ''00:00:01.000 --> 00:00:02.000''"
    "is_cue_timings_line ''00:00:02.000 --> 00:00:03.500''" by code_simp+
  have 3: "parse_timeframe_line WebVTT_TIMEFRAME_LINE_PATTERN ''00:00:01.000 --> 00:00:02.000''
             = Inr (''00:00:01.000'', ''00:00:02.000'')"
    "parse_timeframe_line WebVTT_TIMEFRAME_LINE_PATTERN ''00:00:02.000 --> 00:00:03.500''
             = Inr (''00:00:02.000'', ''00:00:03.500'')" by code_simp+
  show ?thesis
    using 0 sentence_grouping_hello_world [OF 1 2(1) 3(1) 2(2) 3(2), of WebVTTParser_init]
    by (simp add: WebVTTParser_init_def)
qed

text \<open>
  Claim C4: when the blocks of the input end with cue blocks none of whose text lines
  matches the terminal-punctuation pattern, \<open>_parse\<close> raises nothing and leaves the
  instance as it was before those blocks: their group yields no caption.
\<close>

theorem unterminated_group_dropped:
  assumes "compute_blocks ls = pre @ trail"
      and "parse_blocks_cdp
             (self0\<lparr>captions := [], blocks := pre @ trail\<rparr>, [], ''00:00:00.000'') pre
             = Inr (self, grp, tm)"
      and "\<forall>b \<in> set trail. is_cue_block b \<and>
             (\<exists>c. parse_cue_block True b = Inr c \<and> (\<forall>l \<in> set (lines c). \<not> group_by_sentence l))"
  shows "WebVTTParserCDP_parse self0 ls = Inr self"
proof -
  from assms(3) obtain grp' tm' where
    "parse_blocks_cdp (self, grp, tm) trail = Inr (self, grp', tm')"
    using unterminated_cues by blast
  with assms(1,2) show ?thesis
    by (simp add: WebVTTParserCDP_parse_def parse_blocks_cdp_append)
qed

theorem unterminated_group_dropped_witness:
  "compute_blocks [''WEBVTT'', [], ''00:00:01.000 --> 00:00:02.000'', ''Hello.'', [],
                   ''00:00:02.000 --> 00:00:03.500'', ''and then'']
     = [\<lparr>line_number = 3, block_lines = [''00:00:01.000 --> 00:00:02.000'', ''Hello.'']\<rparr>]
       @ [\<lparr>line_number = 6, block_lines = [''00:00:02.000 --> 00:00:03.500'', ''and then'']\<rparr>]
   \<and> is_cue_block \<lparr>line_number = 6, block_lines = [''00:00:02.000 --> 00:00:03.500'', ''and then'']\<rparr>
   \<and> parse_cue_block True
        \<lparr>line_number = 6, block_lines = [''00:00:02.000 --> 00:00:03.500'', ''and then'']\<rparr>
       = Inr \<lparr>identifier = None, start = ''00:00:02.000'', end' = ''00:00:03.500'',
              lines = [''and then''], flagEndSentence = False\<rparr>
   \<and> \<not> group_by_sentence ''and then''
   \<and> WebVTTParserCDP_parse WebVTTParser_init
        [''WEBVTT'', [], ''00:00:01.000 --> 00:00:02.000'', ''Hello.'', [],
         ''00:00:02.000 --> 00:00:03.500'', ''and then'']
       = Inr \<lparr>captions = [\<lparr>identifier = None, start = ''00:00:01.000'',
                              end' = ''00:00:02.000'', lines = ['' Hello.''],
                              flagEndSentence = True\<rparr>],
              styles = [],
              blocks = [\<lparr>line_number = 3,
                          block_lines = [''00:00:01.000 --> 00:00:02.000'', ''Hello.'']\<rparr>,
                        \<lparr>line_number = 6,
                          block_lines = [''00:00:02.000 --> 00:00:03.500'', ''and then'']\<rparr>]\<rparr>"
proof -
  have 1: "compute_blocks [''WEBVTT'', [], ''00:00:01.000 --> 00:00:02.000'', ''Hello.'', [],
                   ''00:00:02.000 --> 00:00:03.500'', ''and then'']
     = [\<lparr>line_number = 3, block_lines = [''00:00:01.000 --> 00:00:02.000'', ''Hello.'']\<rparr>]
       @ [\<lparr>line_number = 6, block_lines = [''00:00:02.000 --> 00:00:03.500'', ''and then'']\<rparr>]"
    by code_simp
  have 2: "parse_blocks_cdp
             (WebVTTParser_init\<lparr>captions := [],
                blocks := [\<lparr>line_number = 3,
                             block_lines = [''00:00:01.000 --> 00:00:02.000'', ''Hello.'']\<rparr>]
                  @ [\<lparr>line_number = 6,
                       block_lines = [''00:00:02.000 --> 00:00:03.500'', ''and then'']\<rparr>]\<rparr>,
              [], ''00:00:00.000'')
             [\<lparr>line_number = 3, block_lines = [''00:00:01.000 --> 00:00:02.000'', ''Hello.'']\<rparr>]
           = Inr (\<lparr>captions = [\<lparr>identifier = None, start = ''00:00:01.000'',
                              end' = ''00:00:02.000'', lines = ['' Hello.''],
                              flagEndSentence = True\<rparr>],
              styles = [],
              blocks = [\<lparr>line_number = 3,
                          block_lines = [''00:00:01.000 --> 00:00:02.000'', ''Hello.'']\<rparr>,
                        \<lparr>line_number = 6,
                          block_lines = [''00:00:02.000 --> 00:00:03.500'', ''and then'']\<rparr>]\<rparr>,
              [], ''00:00:01.000'')"
    by code_simp
  have 3: "is_cue_block
             \<lparr>line_number = 6, block_lines = [''00:00:02.000 --> 00:00:03.500'', ''and then'']\<rparr>"
    by code_simp
  have 4: "parse_cue_block True
        \<lparr>line_number = 6, block_lines = [''00:00:02.000 --> 00:00:03.500'', ''and then'']\<rparr>
       = Inr \<lparr>identifier = None, start = ''00:00:02.000'', end' = ''00:00:03.500'',
              lines = [''and then''], flagEndSentence = False\<rparr>"
    by code_simp
  have 5: "\<not> group_by_sentence ''and then''" by code_simp
  have 6: "\<forall>b \<in> set [\<lparr>line_number = 6,
                       block_lines = [''00:00:02.000 --> 00:00:03.500'', ''and then'']\<rparr>].
             is_cue_block b \<and>
             (\<exists>c. parse_cue_block True b = Inr c \<and> (\<forall>l \<in> set (lines c). \<not> group_by_sentence l))"
    using 3 4 5 by simp
  show ?thesis
    using 1 3 4 5 unterminated_group_dropped [OF 1 2 6] by simp
qed

section \<open>Blocks that are no cue, comment or style block\<close>

text \<open>
  Claim C3, as stated, fails for a block of more than one line: the block of the
  lines \<open>intro\<close> and \<open>Hello\<close> starts in line 3, and the error names line 4.
\<close>

theorem missing_timing_cue_names_next_line:
  "compute_blocks [''WEBVTT'', [], ''intro'', ''Hello'']
     = [\<lparr>line_number = 3, block_lines = [''intro'', ''Hello'']\<rparr>]
   \<and> WebVTTParser_parse WebVTTParser_init [''WEBVTT'', [], ''intro'', ''Hello'']
     = Inl (MalformedCaptionError ''Missing timing cue in line 4.'')
   \<and> WebVTTParserCDP_parse WebVTTParser_init [''WEBVTT'', [], ''intro'', ''Hello'']
     = Inl (MalformedCaptionError ''Missing timing cue in line 4.'')"
  by code_simp

text \<open>
  Claim C3, amended: when the loop of either block-structured parser reaches a block
  that has no timing marker in its first two lines and matches neither the comment nor
  the style header, it raises \<open>MalformedCaptionError\<close>: for a block of exactly one line
  "Standalone cue identifier" with the block's starting line number, for a block of
  more lines "Missing timing cue" with the starting line number plus one.
\<close>

theorem malformed_block_error:
  assumes "block_lines b \<noteq> []" and "\<not> is_cue_block b"
      and "\<not> is_comment_block b" and "\<not> is_style_block b"
  shows "parse_blocks self (b # rest)
           = Inl (MalformedCaptionError
                    (if length (block_lines b) = 1
                     then ''Standalone cue identifier in line '' @ str_nat (line_number b) @ ''.''
                     else ''Missing timing cue in line '' @ str_nat (line_number b + 1) @ ''.''))
       \<and> parse_blocks_cdp (self, grp, tm) (b # rest)
           = Inl (MalformedCaptionError
                    (if length (block_lines b) = 1
                     then ''Standalone cue identifier in line '' @ str_nat (line_number b) @ ''.''
                     else ''Missing timing cue in line '' @ str_nat (line_number b + 1) @ ''.''))"
  using assms by (simp add: parse_block_def parse_block_cdp_def malformed_block_def)

theorem malformed_block_error_witness:
  "\<not> is_cue_block \<lparr>line_number = 3, block_lines = [''intro'']\<rparr>
   \<and> \<not> is_comment_block \<lparr>line_number = 3, block_lines = [''intro'']\<rparr>
   \<and> \<not> is_style_block \<lparr>line_number = 3, block_lines = [''intro'']\<rparr>
   \<and> parse_blocks WebVTTParser_init [\<lparr>line_number = 3, block_lines = [''intro'']\<rparr>]
       = Inl (MalformedCaptionError ''Standalone cue identifier in line 3.'')
   \<and> parse_blocks_cdp (WebVTTParser_init, [], ''00:00:00.000'')
        [\<lparr>line_number = 3, block_lines = [''intro'']\<rparr>]
       = Inl (MalformedCaptionError ''Standalone cue identifier in line 3.'')
   \<and> \<not> is_cue_block \<lparr>line_number = 3, block_lines = [''intro'', ''Hello'']\<rparr>
   \<and> \<not> is_comment_block \<lparr>line_number = 3, block_lines = [''intro'', ''Hello'']\<rparr>
   \<and> \<not> is_style_block \<lparr>line_number = 3, block_lines = [''intro'', ''Hello'']\<rparr>
   \<and> parse_blocks WebVTTParser_init [\<lparr>line_number = 3, block_lines = [''intro'', ''Hello'']\<rparr>]
       = Inl (MalformedCaptionError ''Missing timing cue in line 4.'')
   \<and> parse_blocks_cdp (WebVTTParser_init, [], ''00:00:00.000'')
        [\<lparr>line_number = 3, block_lines = [''intro'', ''Hello'']\<rparr>]
       = Inl (MalformedCaptionError ''Missing timing cue in line 4.'')"
proof -
  have 1: "block_lines \<lparr>line_number = 3, block_lines = [''intro'']\<rparr> \<noteq> []" by simp
  have 2: "\<not> is_cue_block \<lparr>line_number = 3, block_lines = [''intro'']\<rparr>" by code_simp
  have 3: "\<not> is_comment_block \<lparr>line_number = 3, block_lines = [''intro'']\<rparr>" by code_simp
  have 4: "\<not> is_style_block \<lparr>line_number = 3, block_lines = [''intro'']\<rparr>" by code_simp
  have 5: "str_nat 3 = ''3''" "str_nat 4 = ''4''" by code_simp+
  have 6: "block_lines \<lparr>line_number = 3, block_lines = [''intro'', ''Hello'']\<rparr> \<noteq> []" by simp
  have 7: "\<not> is_cue_block \<lparr>line_number = 3, block_lines = [''intro'', ''Hello'']\<rparr>"
    by code_simp
  have 8: "\<not> is_comment_block \<lparr>line_number = 3, block_lines = [''intro'', ''Hello'']\<rparr>"
    by code_simp
  have 9: "\<not> is_style_block \<lparr>line_number = 3, block_lines = [''intro'', ''Hello'']\<rparr>"
    by code_simp
  show ?thesis
    using 2 3 4 5 7 8 9
      malformed_block_error [OF 1 2 3 4, of WebVTTParser_init "[]" "[]" "''00:00:00.000''"]
      malformed_block_error [OF 6 7 8 9, of WebVTTParser_init "[]" "[]" "''00:00:00.000''"]
    by simp
qed

section \<open>The timing line of the block cue format\<close>

text \<open>
  Claim C5 at the line \<open>00:00:01,000 --> 00:00:02,000\<close>, whose milliseconds follow a
  comma: the line has the marker, the pattern matches it (its unescaped dot takes the
  comma) and \<open>_parse_timeframe_line\<close> returns the two timestamps instead of raising
  "Invalid time format"; the cue is read.
\<close>

theorem comma_before_milliseconds_accepted:
  "is_cue_timings_line ''00:00:01,000 --> 00:00:02,000''
   \<and> parse_timeframe_line WebVTT_TIMEFRAME_LINE_PATTERN ''00:00:01,000 --> 00:00:02,000''
       = Inr (''00:00:01,000'', ''00:00:02,000'')
   \<and> WebVTTParser_read WebVTTParser_init
        [''WEBVTT'', [], ''00:00:01,000 --> 00:00:02,000'', ''Hi there'']
       = Inr \<lparr>captions = [\<lparr>identifier = None, start = ''00:00:01,000'',
                              end' = ''00:00:02,000'', lines = [''Hi there''],
                              flagEndSentence = False\<rparr>],
              styles = [],
              blocks = [\<lparr>line_number = 3,
                          block_lines = [''00:00:01,000 --> 00:00:02,000'', ''Hi there'']\<rparr>]\<rparr>"
  by code_simp

section \<open>Style blocks after the first caption\<close>

text \<open>
  Claim C6, as stated, fails for a block whose first line matches the style-header
  pattern and whose second line is a timing line: it is a cue block with the
  identifier \<open>STYLE\<close>, and it is read after a caption without any error.
\<close>

theorem style_header_with_timing_line_is_a_cue:
  "re_match STYLE_PATTERN ''STYLE'' = Some []
   \<and> WebVTTParser_read WebVTTParser_init
       [''WEBVTT'', [], ''00:00:01.000 --> 00:00:02.000'', ''a'', [],
        ''STYLE'', ''00:00:03.000 --> 00:00:04.000'', ''b'']
     = Inr \<lparr>captions = [\<lparr>identifier = None, start = ''00:00:01.000'', end' = ''00:00:02.000'',
                            lines = [''a''], flagEndSentence = False\<rparr>,
                          \<lparr>identifier = Some ''STYLE'', start = ''00:00:03.000'',
                            end' = ''00:00:04.000'', lines = [''b''], flagEndSentence = False\<rparr>],
            styles = [],
            blocks = [\<lparr>line_number = 3,
                        block_lines = [''00:00:01.000 --> 00:00:02.000'', ''a'']\<rparr>,
                      \<lparr>line_number = 6,
                        block_lines = [''STYLE'', ''00:00:03.000 --> 00:00:04.000'', ''b'']\<rparr>]\<rparr>"
  by code_simp

text \<open>
  Claim C6, amended: in either block-structured parser, once \<open>self.captions\<close> is not
  empty, a block that has no timing marker in its first two lines and whose first line
  matches the style-header pattern raises \<open>MalformedFileError\<close>, however many captions
  there are; and whatever blocks the loop then reads without error, \<open>self.styles\<close>
  is at the end what it was.
\<close>

theorem style_block_after_first_caption:
  assumes "captions self \<noteq> []"
  shows "(block_lines b \<noteq> [] \<longrightarrow> \<not> is_cue_block b \<longrightarrow> is_style_block b \<longrightarrow>
            parse_blocks self (b # rest)
              = Inl (MalformedFileError (''Style block defined after the first cue in line ''
                       @ str_nat (line_number b) @ ''.''))
          \<and> parse_blocks_cdp (self, grp, tm) (b # rest)
              = Inl (MalformedFileError (''Style block defined after the first cue in line ''
                       @ str_nat (line_number b) @ ''.'')))
       \<and> (parse_blocks self bs = Inr self' \<longrightarrow> styles self' = styles self)
       \<and> (parse_blocks_cdp (self, grp, tm) bs = Inr (self'', grp', tm')
            \<longrightarrow> styles self'' = styles self)"
proof (intro conjI impI)
  assume b: "block_lines b \<noteq> []" "\<not> is_cue_block b" "is_style_block b"
  then have n: "\<not> is_comment_block b" by (simp add: style_not_comment)
  from assms b n show "parse_blocks self (b # rest)
      = Inl (MalformedFileError (''Style block defined after the first cue in line ''
               @ str_nat (line_number b) @ ''.''))"
    by (simp add: parse_block_def style_after_cue_def)
  from assms b n show "parse_blocks_cdp (self, grp, tm) (b # rest)
      = Inl (MalformedFileError (''Style block defined after the first cue in line ''
               @ str_nat (line_number b) @ ''.''))"
    by (simp add: parse_block_cdp_def style_after_cue_def)
next
  assume "parse_blocks self bs = Inr self'"
  with assms show "styles self' = styles self" by (rule parse_blocks_after_caption)
next
  assume "parse_blocks_cdp (self, grp, tm) bs = Inr (self'', grp', tm')"
  with assms show "styles self'' = styles self" by (rule parse_blocks_cdp_after_caption)
qed
theorem style_block_after_first_caption_witness:
  "captions \<lparr>captions = [Caption ''00:00:01.000'' ''00:00:02.000''], styles = [], blocks = []\<rparr> \<noteq> []
   \<and> \<not> is_cue_block \<lparr>line_number = 6, block_lines = [''STYLE'', ''::cue { color: red }'']\<rparr>
   \<and> is_style_block \<lparr>line_number = 6, block_lines = [''STYLE'', ''::cue { color: red }'']\<rparr>
   \<and> parse_blocks
        \<lparr>captions = [Caption ''00:00:01.000'' ''00:00:02.000''], styles = [], blocks = []\<rparr>
        [\<lparr>line_number = 6, block_lines = [''STYLE'', ''::cue { color: red }'']\<rparr>]
       = Inl (MalformedFileError ''Style block defined after the first cue in line 6.'')
   \<and> parse_blocks_cdp
        (\<lparr>captions = [Caption ''00:00:01.000'' ''00:00:02.000''], styles = [], blocks = []\<rparr>,
         [], ''00:00:01.000'')
        [\<lparr>line_number = 6, block_lines = [''STYLE'', ''::cue { color: red }'']\<rparr>]
       = Inl (MalformedFileError ''Style block defined after the first cue in line 6.'')
   \<and> parse_blocks
        \<lparr>captions = [Caption ''00:00:01.000'' ''00:00:02.000''], styles = [], blocks = []\<rparr>
        [\<lparr>line_number = 6, block_lines = [''NOTE a comment'']\<rparr>]
       = Inr \<lparr>captions = [Caption ''00:00:01.000'' ''00:00:02.000''], styles = [], blocks = []\<rparr>
   \<and> parse_blocks_cdp
        (\<lparr>captions = [Caption ''00:00:01.000'' ''00:00:02.000''], styles = [], blocks = []\<rparr>,
         [], ''00:00:01.000'')
        [\<lparr>line_number = 6, block_lines = [''NOTE a comment'']\<rparr>]
       = Inr (\<lparr>captions = [Caption ''00:00:01.000'' ''00:00:02.000''], styles = [], blocks = []\<rparr>,
              [], ''00:00:01.000'')"
proof -
  have 1: "captions \<lparr>captions = [Caption ''00:00:01.000'' ''00:00:02.000''], styles = [],
                      blocks = []\<rparr> \<noteq> []"
    by simp
  have 2: "block_lines \<lparr>line_number = 6, block_lines = [''STYLE'', ''::cue { color: red }'']\<rparr>
             \<noteq> []"
    by simp
  have 3: "\<not> is_cue_block \<lparr>line_number = 6, block_lines = [''STYLE'', ''::cue { color: red }'']\<rparr>"
    by code_simp
  have 4: "is_style_block \<lparr>line_number = 6, block_lines = [''STYLE'', ''::cue { color: red }'']\<rparr>"
    by code_simp
  have 5: "str_nat 6 = ''6''" by code_simp
  have 6: "parse_blocks
        \<lparr>captions = [Caption ''00:00:01.000'' ''00:00:02.000''], styles = [], blocks = []\<rparr>
        [\<lparr>line_number = 6, block_lines = [''NOTE a comment'']\<rparr>]
       = Inr \<lparr>captions = [Caption ''00:00:01.000'' ''00:00:02.000''], styles = [], blocks = []\<rparr>"
    by code_simp
  have 7: "parse_blocks_cdp
        (\<lparr>captions = [Caption ''00:00:01.000'' ''00:00:02.000''], styles = [], blocks = []\<rparr>,
         [], ''00:00:01.000'')
        [\<lparr>line_number = 6, block_lines = [''NOTE a comment'']\<rparr>]
       = Inr (\<lparr>captions = [Caption ''00:00:01.000'' ''00:00:02.000''], styles = [], blocks = []\<rparr>,
              [], ''00:00:01.000'')"
    by code_simp
  note inst = style_block_after_first_caption [OF 1,
      where b = "\<lparr>line_number = 6, block_lines = [''STYLE'', ''::cue { color: red }'']\<rparr>"
        and rest = "[]" and grp = "[]" and tm = "''00:00:01.000''"
        and bs = "[\<lparr>line_number = 6, block_lines = [''NOTE a comment'']\<rparr>]"
        and self' = "\<lparr>captions = [Caption ''00:00:01.000'' ''00:00:02.000''], styles = [],
                       blocks = []\<rparr>"
        and self'' = "\<lparr>captions = [Caption ''00:00:01.000'' ''00:00:02.000''], styles = [],
                        blocks = []\<rparr>"
        and grp' = "[]" and tm' = "''00:00:01.000''"]
  show ?thesis
    using 1 2 3 4 5 6 7 inst by simp
qed

section \<open>Parsing twice with one instance\<close>

text \<open>
  Claim C7 at a file with one style block, read twice by the same instance: the first
  read leaves one style, the second read leaves two, where a fresh instance holds one.
\<close>

theorem second_parse_keeps_styles:
  "WebVTTParser_read WebVTTParser_init [''WEBVTT'', [], ''STYLE'', ''::cue { color: red }'']
     = Inr \<lparr>captions = [], styles = [\<lparr>style_lines = [''::cue { color: red }'']\<rparr>],
            blocks = [\<lparr>line_number = 3, block_lines = [''STYLE'', ''::cue { color: red }'']\<rparr>]\<rparr>
   \<and> WebVTTParser_read
        \<lparr>captions = [], styles = [\<lparr>style_lines = [''::cue { color: red }'']\<rparr>],
         blocks = [\<lparr>line_number = 3, block_lines = [''STYLE'', ''::cue { color: red }'']\<rparr>]\<rparr>
        [''WEBVTT'', [], ''STYLE'', ''::cue { color: red }'']
     = Inr \<lparr>captions = [],
            styles = [\<lparr>style_lines = [''::cue { color: red }'']\<rparr>,
                      \<lparr>style_lines = [''::cue { color: red }'']\<rparr>],
            blocks = [\<lparr>line_number = 3, block_lines = [''STYLE'', ''::cue { color: red }'']\<rparr>]\<rparr>"
  by code_simp

section \<open>The generic line-classifying parser\<close>

text \<open>
  Claim C8: in the numbered-cue format, the lines index, valid timing line, text line,
  blank line, index, valid timing line, blank line give exactly the caption of the
  first cue, and nothing is raised. Before the last blank line the second cue is the
  open caption and has no text; the iteration on the blank line discards it, leaving
  no open caption. It does so because the option is set: with the option unset and
  the grammar otherwise the same, the same lines raise "Caption missing text".
\<close>

theorem srt_empty_second_cue_omitted:
  assumes "isdigit i1" and "isdigit i2"
      and "contains ''-->'' t1"
      and "parse_timeframe_line SRT_TIMEFRAME_LINE_PATTERN t1 = Inr (s1, e1)"
      and "contains ''-->'' t2"
      and "parse_timeframe_line SRT_TIMEFRAME_LINE_PATTERN t2 = Inr (s2, e2)"
      and "txt \<noteq> []" and "\<not> contains ''-->'' txt"
  shows "TextBasedParser_parse SRTParser [i1, t1, txt, [], i2, t2, []]
           = Inr [add_line txt (Caption s1 e1)]
       \<and> ignore_empty_captions SRTParser
       \<and> parse_lines SRTParser ([], None) 0 [i1, t1, txt, [], i2, t2]
           = Inr ([add_line txt (Caption s1 e1)], Some (Caption s2 e2))
       \<and> parse_line SRTParser ([add_line txt (Caption s1 e1)], Some (Caption s2 e2)) 6 []
           = Inr ([add_line txt (Caption s1 e1)], None)
       \<and> parse_lines SRTParser ([], None) 0 [i1, t1, txt, [], i2, t2, []]
           = Inr ([add_line txt (Caption s1 e1)], None)
       \<and> TextBasedParser_parse (SRTParser\<lparr>ignore_empty_captions := False\<rparr>)
            [i1, t1, txt, [], i2, t2, []]
           = Inl (MalformedCaptionError ''Caption missing text in line 7.'')"
proof -
  let ?c1 = "add_line txt (Caption s1 e1)"
  have l2: "lines (Caption s2 e2) = []" by (simp add: Caption_def)
  have s7: "str_nat (6 + 1) = ''7''" by code_simp
  have six: "\<And>opt rest. parse_lines (SRTParser\<lparr>ignore_empty_captions := opt\<rparr>) ([], None) 0
                 (i1 # t1 # txt # [] # i2 # t2 # rest)
           = parse_lines (SRTParser\<lparr>ignore_empty_captions := opt\<rparr>)
               ([?c1], Some (Caption s2 e2)) 6 rest"
    using SRT_six_lines [OF assms] by simp
  have o: "ignore_empty_captions SRTParser" by (simp add: SRTParser_def)
  have b: "parse_lines SRTParser ([], None) 0 [i1, t1, txt, [], i2, t2]
             = Inr ([?c1], Some (Caption s2 e2))"
    using six [of True "[]"] by (simp add: SRT_opt_True)
  have d: "parse_line SRTParser ([?c1], Some (Caption s2 e2)) 6 [] = Inr ([?c1], None)"
    using SRT_blank [of True "[?c1]" "Caption s2 e2" 6] l2 by (simp add: SRT_opt_True)
  have e: "parse_lines SRTParser ([], None) 0 [i1, t1, txt, [], i2, t2, []] = Inr ([?c1], None)"
    using six [of True "[[]]"] d by (simp add: SRT_opt_True)
  have a: "TextBasedParser_parse SRTParser [i1, t1, txt, [], i2, t2, []] = Inr [?c1]"
    using e by (simp add: TextBasedParser_parse_def finish_def)
  have f: "TextBasedParser_parse (SRTParser\<lparr>ignore_empty_captions := False\<rparr>)
             [i1, t1, txt, [], i2, t2, []]
           = Inl (MalformedCaptionError ''Caption missing text in line 7.'')"
    using six [of False "[[]]"] l2 s7
    by (simp add: TextBasedParser_parse_def SRT_blank)
  from a o b d e f show ?thesis by simp
qed

theorem srt_empty_second_cue_omitted_witness:
  "SRTParser_validate
     [''1'', ''1:00:00,000 --> 1:00:02,500'', ''Hi there'', [], ''2'',
      ''1:00:03,000 --> 1:00:04,500'', []] = Inr ()
   \<and> TextBasedParser_parse SRTParser
     [''1'', ''1:00:00,000 --> 1:00:02,500'', ''Hi there'', [], ''2'',
      ''1:00:03,000 --> 1:00:04,500'', []]
     = Inr [\<lparr>identifier = None, start = ''1:00:00,000'', end' = ''1:00:02,500'',
              lines = [''Hi there''], flagEndSentence = False\<rparr>]
   \<and> parse_line SRTParser
        ([\<lparr>identifier = None, start = ''1:00:00,000'', end' = ''1:00:02,500'',
            lines = [''Hi there''], flagEndSentence = False\<rparr>],
         Some (Caption ''1:00:03,000'' ''1:00:04,500'')) 6 []
     = Inr ([\<lparr>identifier = None, start = ''1:00:00,000'', end' = ''1:00:02,500'',
               lines = [''Hi there''], flagEndSentence = False\<rparr>], None)
   \<and> TextBasedParser_parse (SRTParser\<lparr>ignore_empty_captions := False\<rparr>)
     [''1'', ''1:00:00,000 --> 1:00:02,500'', ''Hi there'', [], ''2'',
      ''1:00:03,000 --> 1:00:04,500'', []]
     = Inl (MalformedCaptionError ''Caption missing text in line 7.'')"
proof -
  have 0: "SRTParser_validate
     [''1'', ''1:00:00,000 --> 1:00:02,500'', ''Hi there'', [], ''2'',
      ''1:00:03,000 --> 1:00:04,500'', []] = Inr ()"
    by code_simp
  have 1: "isdigit ''1''" "isdigit ''2''" by code_simp+
  have 2: "contains ''-->'' ''1:00:00,000 --> 1:00:02,500''"
    "contains ''-->'' ''1:00:03,000 --> 1:00:04,500''" by code_simp+
  have 3: "parse_timeframe_line SRT_TIMEFRAME_LINE_PATTERN ''1:00:00,000 --> 1:00:02,500''
             = Inr (''1:00:00,000'', ''1:00:02,500'')"
    "parse_timeframe_line SRT_TIMEFRAME_LINE_PATTERN ''1:00:03,000 --> 1:00:04,500''
             = Inr (''1:00:03,000'', ''1:00:04,500'')"
    by code_simp+
  have 4: "''Hi there'' \<noteq> []" "\<not> contains ''-->'' ''Hi there''" by code_simp+
  show ?thesis
    using 0 srt_empty_second_cue_omitted [OF 1 2(1) 3(1) 2(2) 3(2) 4]
    by (simp add: add_line_def Caption_def)
qed

text \<open>
  Claim C9: a line that is a timing line and matches the pattern, met while a caption
  \<open>c\<close> is open (with or without text lines), makes the new caption the open one; \<open>c\<close>
  is not appended and nothing is raised, and the rest of the loop runs from a state
  in which \<open>c\<close> does not occur.
\<close>

theorem timing_line_replaces_open_caption:
  assumes "is_timeframe_line g t"
      and "parse_timeframe_line (TIMEFRAME_LINE_PATTERN g) t = Inr (s, e)"
  shows "parse_line g (caps, Some c) index t = Inr (caps, Some (Caption s e))
       \<and> parse_lines g (caps, Some c) index (t # rest)
           = parse_lines g (caps, Some (Caption s e)) (Suc index) rest"
  using assms by (simp add: parse_line_def)

theorem timing_line_replaces_open_caption_witness:
  "is_timeframe_line SBVParser ''0:00:03.000,0:00:04.000''
   \<and> parse_timeframe_line (TIMEFRAME_LINE_PATTERN SBVParser) ''0:00:03.000,0:00:04.000''
       = Inr (''0:00:03.000'', ''0:00:04.000'')
   \<and> parse_line SBVParser
        ([], Some (add_line ''first'' (Caption ''0:00:01.000'' ''0:00:02.000''))) 2
        ''0:00:03.000,0:00:04.000''
       = Inr ([], Some (Caption ''0:00:03.000'' ''0:00:04.000''))
   \<and> TextBasedParser_parse SBVParser
        [''0:00:01.000,0:00:02.000'', ''first'', ''0:00:03.000,0:00:04.000'', ''second'']
       = Inr [add_line ''second'' (Caption ''0:00:03.000'' ''0:00:04.000'')]"
proof -
  have 1: "is_timeframe_line SBVParser ''0:00:03.000,0:00:04.000''" by code_simp
  have 2: "parse_timeframe_line (TIMEFRAME_LINE_PATTERN SBVParser) ''0:00:03.000,0:00:04.000''
             = Inr (''0:00:03.000'', ''0:00:04.000'')" by code_simp
  have 3: "TextBasedParser_parse SBVParser
        [''0:00:01.000,0:00:02.000'', ''first'', ''0:00:03.000,0:00:04.000'', ''second'']
       = Inr [add_line ''second'' (Caption ''0:00:03.000'' ''0:00:04.000'')]" by code_simp
  show ?thesis
    using 1 2 3 timing_line_replaces_open_caption [OF 1 2, of "[]"
        "add_line ''first'' (Caption ''0:00:01.000'' ''0:00:02.000'')" 2 "[]"]
    by simp
qed

text \<open>
  Claim C10: when the loop ends with an open caption that has no text line, \<open>_parse\<close>
  returns the captions appended so far, without the open one, and raises nothing;
  the grammar's empty-caption option plays no part.
\<close>

theorem open_caption_without_text_at_end:
  assumes "parse_lines g ([], None) 0 ls = Inr (caps, Some c)"
      and "lines c = []"
  shows "TextBasedParser_parse g ls = Inr caps"
  using assms by (simp add: TextBasedParser_parse_def finish_def)

theorem open_caption_without_text_at_end_witness:
  "\<not> ignore_empty_captions SBVParser
   \<and> parse_lines SBVParser ([], None) 0 [''0:00:01.000,0:00:02.000'']
       = Inr ([], Some (Caption ''0:00:01.000'' ''0:00:02.000''))
   \<and> lines (Caption ''0:00:01.000'' ''0:00:02.000'') = []
   \<and> TextBasedParser_parse SBVParser [''0:00:01.000,0:00:02.000''] = Inr []"
proof -
  have 0: "\<not> ignore_empty_captions SBVParser" by (simp add: SBVParser_def)
  have 1: "parse_lines SBVParser ([], None) 0 [''0:00:01.000,0:00:02.000'']
             = Inr ([], Some (Caption ''0:00:01.000'' ''0:00:02.000''))" by code_simp
  have 2: "lines (Caption ''0:00:01.000'' ''0:00:02.000'') = []" by (simp add: Caption_def)
  show ?thesis
    using 0 1 2 open_caption_without_text_at_end [OF 1 2] by simp
qed

end
